theory Spec2Isabelle
  imports Complex_Main "HOL-Library.Word"
begin

section \<open>OpenCvVideoDecoderCalculator\<close>

text \<open>
  A shallow embedding of
  \<^verbatim>\<open>mediapipe/calculators/video/opencv_video_decoder_calculator.cc\<close>.

  The calculator object is a record of its data members, the calculator context
  \<^verbatim>\<open>cc\<close> is a record holding the input side packet, the negotiated output tags and
  the list of observable effects in program order. Every method takes the calculator
  and the context and returns its status with both, updated.

  Conventions:
  \<^item> C++ \<^verbatim>\<open>double\<close> is \<open>real\<close> (infinities and NaN are not modelled); the product
    of line 137, from which the timestamps come, is the rounded product of the machine
    and is a parameter, \<open>double_times\<close>;
  \<^item> C++ \<^verbatim>\<open>int\<close> and the 64-bit value of a timestamp are \<open>int\<close>; no property
    proved here depends on their range;
  \<^item> the data members are named as in the source without the trailing underscore
    (\<^verbatim>\<open>cap_\<close> is \<open>cap\<close>, \<^verbatim>\<open>frame_count_\<close> is \<open>frame_count\<close>, and so on).
\<close>

subsection \<open>Framework and OpenCV types used by the calculator\<close>

text \<open>The values of \<^verbatim>\<open>ImageFormat::Format\<close> that the calculator mentions.\<close>

datatype ImageFormat = UNKNOWN | SRGB | SRGBA | GRAY8

text \<open>
  Modelled from the spec: the framework's \<^verbatim>\<open>Timestamp\<close> class is not part of the
  source file. \<open>Unset\<close> is the initial value of \<^verbatim>\<open>prev_timestamp_\<close>
  (``conceptually minus infinity''), \<open>PreStream\<close> is the distinguished pre-stream
  timestamp, and \<open>Timestamp t\<close> is the timestamp constructed from the number \<open>t\<close>.
  \<open>ts_less\<close> is \<^verbatim>\<open>operator<\<close>.
\<close>

datatype Timestamp = Unset | PreStream | Timestamp int

fun ts_less :: "Timestamp \<Rightarrow> Timestamp \<Rightarrow> bool" where
  "ts_less (Timestamp a) (Timestamp b) = (a < b)"
| "ts_less (Timestamp a) _ = False"
| "ts_less PreStream (Timestamp b) = True"
| "ts_less PreStream _ = False"
| "ts_less Unset Unset = False"
| "ts_less Unset _ = True"

text \<open>
  A \<^verbatim>\<open>cv::Mat\<close> of 8-bit data: its rows, columns and channel count, and its pixels
  in row-major order, each pixel the list of its channel values. \<^verbatim>\<open>Mat::empty()\<close> holds
  of a matrix with no elements.
\<close>

type_synonym pixel = "8 word list"

record Mat =
  mat_rows :: int
  mat_cols :: int
  mat_channels :: int
  mat_data :: "pixel list"

definition Mat_empty :: "Mat \<Rightarrow> bool" where
  "Mat_empty m = (mat_data m = [])"

text \<open>
  Modelled from the spec: the framework's \<^verbatim>\<open>ImageFrame\<close> class is not part of the
  source file. An image frame owns a pixel buffer sized width by height by the channels
  of its format. \<open>PixelData\<close> is \<open>None\<close> as long as nothing has been written to the
  buffer, whose content the constructor leaves undetermined.
\<close>

record ImageFrame =
  Format :: ImageFormat
  Width :: int
  Height :: int
  PixelData :: "pixel list option"

fun NumberOfChannels :: "ImageFormat \<Rightarrow> int" where
  "NumberOfChannels GRAY8 = 1"
| "NumberOfChannels SRGB = 3"
| "NumberOfChannels SRGBA = 4"
| "NumberOfChannels UNKNOWN = 0"

definition ImageFrame_new :: "ImageFormat \<Rightarrow> int \<Rightarrow> int \<Rightarrow> ImageFrame" where
  "ImageFrame_new f w h = \<lparr>Format = f, Width = w, Height = h, PixelData = None\<rparr>"

text \<open>
  Modelled from the spec: \<^verbatim>\<open>formats::MatView\<close> is framework code outside the source
  file. It gives a matrix over the buffer of an image frame, with the frame's height
  as rows, its width as columns and the channels of its format. What is written
  through the view reaches the buffer when it has that shape.
\<close>

definition view_holds :: "ImageFrame \<Rightarrow> int \<Rightarrow> int \<Rightarrow> int \<Rightarrow> bool" where
  "view_holds image_frame rows cols channels =
     (rows = Height image_frame \<and> cols = Width image_frame
      \<and> channels = NumberOfChannels (Format image_frame))"

record VideoHeader =
  header_format :: ImageFormat
  header_width :: int
  header_height :: int
  header_frame_rate :: real
  header_duration :: real

datatype Status = OkStatus | InvalidArgumentError string | StatusStop

text \<open>
  What leaves \<^verbatim>\<open>Process\<close> other than through its returned status: the dereference
  of a null \<^verbatim>\<open>cap_\<close> and the exception of \<^verbatim>\<open>cv::cvtColor\<close>.
\<close>

datatype fault = null_pointer_dereference | cv_Exception

text \<open>
  The observable effects of the calculator: packets added to the output streams
  \<^verbatim>\<open>VIDEO\<close> and \<^verbatim>\<open>VIDEO_PRESTREAM\<close>, the closing of \<^verbatim>\<open>VIDEO_PRESTREAM\<close>, and the
  warning of \<^verbatim>\<open>Close\<close>, which carries \<^verbatim>\<open>frame_count_\<close> and \<^verbatim>\<open>decoded_frames_\<close>.
\<close>

datatype Event =
    Add_VIDEO ImageFrame Timestamp
  | Add_VIDEO_PRESTREAM VideoHeader Timestamp
  | Close_VIDEO_PRESTREAM
  | LOG_WARNING int int

record Context =
  INPUT_FILE_PATH :: string
  HasTag_VIDEO_PRESTREAM :: bool
  effects :: "Event list"

subsection \<open>The decode session\<close>

text \<open>
  \<^verbatim>\<open>cv::VideoCapture\<close> belongs to OpenCV, outside the repository, so the calculator
  is parameterised by it: a session state of type \<open>'s\<close> and the member functions the
  calculator calls. \<^verbatim>\<open>get\<close> is a \<^verbatim>\<open>const\<close> member and leaves the session as it
  is; \<^verbatim>\<open>read\<close> returns the frame (empty when there is none) and the new session;
  \<^verbatim>\<open>set\<close> returns its \<^verbatim>\<open>bool\<close> and the new session.

  The last field is not a member of \<^verbatim>\<open>cv::VideoCapture\<close>: \<open>double_times\<close> is the product
  of two \<^verbatim>\<open>double\<close> values as the machine computes it, rounded. It is kept with the
  session, so that one parameter carries all that the calculator takes from outside the
  source.
\<close>

datatype VideoCaptureProperties =
    CAP_PROP_POS_MSEC
  | CAP_PROP_POS_AVI_RATIO
  | CAP_PROP_FRAME_WIDTH
  | CAP_PROP_FRAME_HEIGHT
  | CAP_PROP_FPS
  | CAP_PROP_FRAME_COUNT

record 's VideoCapture =
  vc_new :: "string \<Rightarrow> 's"
  vc_isOpened :: "'s \<Rightarrow> bool"
  vc_get :: "'s \<Rightarrow> VideoCaptureProperties \<Rightarrow> real"
  vc_read :: "'s \<Rightarrow> Mat \<times> 's"
  vc_set :: "'s \<Rightarrow> VideoCaptureProperties \<Rightarrow> real \<Rightarrow> bool \<times> 's"
  vc_release :: "'s \<Rightarrow> 's"
  double_times :: "real \<Rightarrow> real \<Rightarrow> real"

text \<open>
  Modelled from the spec: \<^verbatim>\<open>cv::cvtColor\<close> belongs to OpenCV. With
  \<^verbatim>\<open>COLOR_BGR2RGB\<close> it reorders the three channels of every pixel, with
  \<^verbatim>\<open>COLOR_BGRA2RGBA\<close> it does the same and passes the alpha channel through. A pixel
  with another number of channels makes it throw, which is \<open>None\<close>. The calculator
  passes the view of the image frame as destination, a temporary matrix, which OpenCV
  takes as an output of fixed size and type: a result of another shape makes
  \<^verbatim>\<open>cvtColor\<close> throw as well.
\<close>

datatype ColorConversionCodes = COLOR_BGR2RGB | COLOR_BGRA2RGBA

fun bgr2rgb :: "pixel \<Rightarrow> pixel option" where
  "bgr2rgb [b, g, r] = Some [r, g, b]"
| "bgr2rgb _ = None"

fun bgra2rgba :: "pixel \<Rightarrow> pixel option" where
  "bgra2rgba [b, g, r, a] = Some [r, g, b, a]"
| "bgra2rgba _ = None"

fun cvtColor :: "Mat \<Rightarrow> ImageFrame \<Rightarrow> ColorConversionCodes \<Rightarrow> ImageFrame option" where
  "cvtColor src dst COLOR_BGR2RGB =
     (case those (map bgr2rgb (mat_data src)) of
        None \<Rightarrow> None
      | Some px \<Rightarrow>
          if view_holds dst (mat_rows src) (mat_cols src) 3
          then Some (dst\<lparr>PixelData := Some px\<rparr>) else None)"
| "cvtColor src dst COLOR_BGRA2RGBA =
     (case those (map bgra2rgba (mat_data src)) of
        None \<Rightarrow> None
      | Some px \<Rightarrow>
          if view_holds dst (mat_rows src) (mat_cols src) 4
          then Some (dst\<lparr>PixelData := Some px\<rparr>) else None)"

text \<open>
  The conversion of a \<^verbatim>\<open>double\<close> to \<^verbatim>\<open>int\<close> (\<^verbatim>\<open>static_cast<int>\<close>) and to the 64-bit
  argument of the \<^verbatim>\<open>Timestamp\<close> constructor: the fractional part is discarded.
\<close>

definition double_to_int :: "real \<Rightarrow> int" where
  "double_to_int x = (if 0 \<le> x then \<lfloor>x\<rfloor> else \<lceil>x\<rceil>)"

subsection \<open>The calculator\<close>

fun GetImageFormat :: "int \<Rightarrow> ImageFormat" where
  "GetImageFormat num_channels =
     (if num_channels = 1 then GRAY8
      else if num_channels = 3 then SRGB
      else if num_channels = 4 then SRGBA
      else UNKNOWN)"

record 's Calculator =
  cap :: "'s option"
  width :: int
  height :: int
  frame_count :: int
  decoded_frames :: int
  format :: ImageFormat
  prev_timestamp :: Timestamp

text \<open>
  A calculator object on which no method has run yet: the members with a default
  initialiser have it (\<^verbatim>\<open>decoded_frames_ = 0\<close>, \<^verbatim>\<open>prev_timestamp_ = Unset\<close>, the
  null \<^verbatim>\<open>cap_\<close>); \<^verbatim>\<open>width_\<close>, \<^verbatim>\<open>height_\<close>, \<^verbatim>\<open>frame_count_\<close> and \<^verbatim>\<open>format_\<close> have no
  initialiser in the source and are left open.
\<close>

definition constructed :: "'s Calculator \<Rightarrow> bool" where
  "constructed calc =
     (cap calc = None \<and> decoded_frames calc = 0 \<and> prev_timestamp calc = Unset)"

definition Fail_to_open :: "string \<Rightarrow> Status" where
  "Fail_to_open path = InvalidArgumentError (''Fail to open video file at '' @ path)"

definition Fail_to_read_any_frames :: "string \<Rightarrow> Status" where
  "Fail_to_read_any_frames path =
     InvalidArgumentError (''Fail to read any frames from the video file at '' @ path)"

definition Unsupported_video_format :: "string \<Rightarrow> Status" where
  "Unsupported_video_format path =
     InvalidArgumentError (''Unsupported video format of the video file at '' @ path)"

definition Fail_to_make_video_header :: "string \<Rightarrow> Status" where
  "Fail_to_make_video_header path =
     InvalidArgumentError
       (''Fail to make video header due to the incorrect metadata from the video file at ''
        @ path)"

definition Open ::
  "'s VideoCapture \<Rightarrow> 's Calculator \<Rightarrow> Context \<Rightarrow> Status \<times> 's Calculator \<times> Context"
where
  "Open vc calc cc =
    (let input_file_path = INPUT_FILE_PATH cc;
         c0 = vc_new vc input_file_path;
         calc = calc\<lparr>cap := Some c0\<rparr>
     in
     if \<not> vc_isOpened vc c0 then (Fail_to_open input_file_path, calc, cc)
     else
       let calc = calc\<lparr>width := double_to_int (vc_get vc c0 CAP_PROP_FRAME_WIDTH)\<rparr>;
           calc = calc\<lparr>height := double_to_int (vc_get vc c0 CAP_PROP_FRAME_HEIGHT)\<rparr>;
           fps = vc_get vc c0 CAP_PROP_FPS;
           calc = calc\<lparr>frame_count := double_to_int (vc_get vc c0 CAP_PROP_FRAME_COUNT)\<rparr>;
           (frame, c1) = vc_read vc c0;
           calc = calc\<lparr>cap := Some c1\<rparr>
       in
       if Mat_empty frame then (Fail_to_read_any_frames input_file_path, calc, cc)
       else
         let calc = calc\<lparr>format := GetImageFormat (mat_channels frame)\<rparr> in
         if format calc = UNKNOWN then (Unsupported_video_format input_file_path, calc, cc)
         else if fps \<le> 0 \<or> frame_count calc \<le> 0 \<or> width calc \<le> 0 \<or> height calc \<le> 0
         then (Fail_to_make_video_header input_file_path, calc, cc)
         else
           let header = \<lparr>header_format = format calc,
                         header_width = width calc,
                         header_height = height calc,
                         header_frame_rate = fps,
                         header_duration = real_of_int (frame_count calc) / fps\<rparr>;
               cc = (if HasTag_VIDEO_PRESTREAM cc
                     then cc\<lparr>effects := effects cc
                                 @ [Add_VIDEO_PRESTREAM header PreStream, Close_VIDEO_PRESTREAM]\<rparr>
                     else cc);
               (ok, c2) = vc_set vc c1 CAP_PROP_POS_AVI_RATIO 0
           in (OkStatus, calc\<lparr>cap := Some c2\<rparr>, cc))"

text \<open>
  Lines 158 to 166 of \<^verbatim>\<open>Process\<close>: the frame is added to \<^verbatim>\<open>VIDEO\<close> when
  \<^verbatim>\<open>prev_timestamp_ < timestamp\<close>, and discarded otherwise.
\<close>

definition Process_output ::
  "'s Calculator \<Rightarrow> Context \<Rightarrow> ImageFrame \<Rightarrow> Timestamp \<Rightarrow> Status \<times> 's Calculator \<times> Context"
where
  "Process_output calc cc image_frame timestamp =
    (if ts_less (prev_timestamp calc) timestamp
     then (OkStatus,
           calc\<lparr>prev_timestamp := timestamp, decoded_frames := decoded_frames calc + 1\<rparr>,
           cc\<lparr>effects := effects cc @ [Add_VIDEO image_frame timestamp]\<rparr>)
     else (OkStatus, calc, cc))"

text \<open>
  The timestamp is derived at line 137, before the frame is read: the position in
  milliseconds times 1000, a product of two \<^verbatim>\<open>double\<close> values, converted to the 64-bit
  argument of the \<^verbatim>\<open>Timestamp\<close> constructor.

  In the \<^verbatim>\<open>GRAY8\<close> branch \<^verbatim>\<open>read\<close> decodes into a matrix that views the buffer of
  the image frame. When the decoded frame has the shape of the view, its pixels reach
  the buffer; when it has not, OpenCV gives the matrix a buffer of its own, the buffer
  of the image frame stays unwritten, and the step goes on. In the other branch
  \<^verbatim>\<open>cvtColor\<close> writes through such a view. A format that is none of the three leaves
  the buffer as allocated.
\<close>

definition Process ::
  "'s VideoCapture \<Rightarrow> 's Calculator \<Rightarrow> Context
     \<Rightarrow> fault + (Status \<times> 's Calculator \<times> Context)"
where
  "Process vc calc cc =
    (case cap calc of
       None \<Rightarrow> Inl null_pointer_dereference
     | Some c \<Rightarrow>
        let image_frame = ImageFrame_new (format calc) (width calc) (height calc);
            timestamp =
              Timestamp (double_to_int (double_times vc (vc_get vc c CAP_PROP_POS_MSEC) 1000))
        in
        if format calc = GRAY8 then
          (let (frame, c') = vc_read vc c;
               calc = calc\<lparr>cap := Some c'\<rparr>
           in if Mat_empty frame then Inr (StatusStop, calc, cc)
              else Inr (Process_output calc cc
                          (if view_holds image_frame
                                (mat_rows frame) (mat_cols frame) (mat_channels frame)
                           then image_frame\<lparr>PixelData := Some (mat_data frame)\<rparr>
                           else image_frame)
                          timestamp))
        else
          (let (tmp_frame, c') = vc_read vc c;
               calc = calc\<lparr>cap := Some c'\<rparr>
           in if Mat_empty tmp_frame then Inr (StatusStop, calc, cc)
              else if format calc = SRGB then
                (case cvtColor tmp_frame image_frame COLOR_BGR2RGB of
                   None \<Rightarrow> Inl cv_Exception
                 | Some image_frame \<Rightarrow> Inr (Process_output calc cc image_frame timestamp))
              else if format calc = SRGBA then
                (case cvtColor tmp_frame image_frame COLOR_BGRA2RGBA of
                   None \<Rightarrow> Inl cv_Exception
                 | Some image_frame \<Rightarrow> Inr (Process_output calc cc image_frame timestamp))
              else Inr (Process_output calc cc image_frame timestamp)))"

definition Close ::
  "'s VideoCapture \<Rightarrow> 's Calculator \<Rightarrow> Context \<Rightarrow> Status \<times> 's Calculator \<times> Context"
where
  "Close vc calc cc =
    (let calc = (case cap calc of
                   None \<Rightarrow> calc
                 | Some c \<Rightarrow>
                     if vc_isOpened vc c then calc\<lparr>cap := Some (vc_release vc c)\<rparr> else calc);
         cc = (if decoded_frames calc \<noteq> frame_count calc
               then cc\<lparr>effects := effects cc
                           @ [LOG_WARNING (frame_count calc) (decoded_frames calc)]\<rparr>
               else cc)
     in (OkStatus, calc, cc))"

subsection \<open>Runs\<close>

text \<open>
  Modelled from the spec: the scheduler belongs to the framework. After \<^verbatim>\<open>Open\<close> it
  invokes \<^verbatim>\<open>Process\<close> once per step, as long as the step returns \<^verbatim>\<open>OkStatus\<close>.
  \<open>Process_steps vc n\<close> is a run of at most \<open>n\<close> steps.
\<close>

fun Process_steps ::
  "'s VideoCapture \<Rightarrow> nat \<Rightarrow> 's Calculator \<Rightarrow> Context
     \<Rightarrow> fault + (Status \<times> 's Calculator \<times> Context)"
where
  "Process_steps vc 0 calc cc = Inr (OkStatus, calc, cc)"
| "Process_steps vc (Suc n) calc cc =
     (case Process vc calc cc of
        Inl f \<Rightarrow> Inl f
      | Inr (st, calc', cc') \<Rightarrow>
          if st = OkStatus then Process_steps vc n calc' cc' else Inr (st, calc', cc'))"

text \<open>
  \<open>Process_again vc n\<close> is the result of the invocation of \<^verbatim>\<open>Process\<close> that follows
  \<open>n\<close> earlier ones, whatever status those returned.
\<close>

fun Process_again ::
  "'s VideoCapture \<Rightarrow> nat \<Rightarrow> 's Calculator \<Rightarrow> Context
     \<Rightarrow> fault + (Status \<times> 's Calculator \<times> Context)"
where
  "Process_again vc 0 calc cc = Process vc calc cc"
| "Process_again vc (Suc n) calc cc =
     (case Process vc calc cc of
        Inl f \<Rightarrow> Inl f
      | Inr (st, calc', cc') \<Rightarrow> Process_again vc n calc' cc')"

text \<open>The session after \<open>k\<close> calls of \<^verbatim>\<open>read\<close>.\<close>

fun reads :: "'s VideoCapture \<Rightarrow> nat \<Rightarrow> 's \<Rightarrow> 's" where
  "reads vc 0 c = c"
| "reads vc (Suc k) c = reads vc k (snd (vc_read vc c))"

text \<open>The timestamps of the packets added to \<^verbatim>\<open>VIDEO\<close>, in the order of their emission.\<close>

fun video_timestamps :: "Event list \<Rightarrow> Timestamp list" where
  "video_timestamps [] = []"
| "video_timestamps (Add_VIDEO image_frame t # es) = t # video_timestamps es"
| "video_timestamps (e # es) = video_timestamps es"


text \<open>
  The timestamp that \<^verbatim>\<open>Process\<close> derives on a session \<open>c\<close>: the \<^verbatim>\<open>double\<close> product of
  the position in milliseconds and 1000, as the argument of the \<^verbatim>\<open>Timestamp\<close>
  constructor.
\<close>

definition position_timestamp :: "'s VideoCapture \<Rightarrow> 's \<Rightarrow> Timestamp" where
  "position_timestamp vc c =
     Timestamp (double_to_int (double_times vc (vc_get vc c CAP_PROP_POS_MSEC) 1000))"

text \<open>The frame that the first \<^verbatim>\<open>read\<close> of a new session on \<open>path\<close> yields.\<close>

definition first_frame :: "'s VideoCapture \<Rightarrow> string \<Rightarrow> Mat" where
  "first_frame vc path = fst (vc_read vc (vc_new vc path))"

text \<open>
  A matrix has as many pixels as its rows and columns say, and every pixel has as many
  values as the matrix has channels.
\<close>

definition Mat_wf :: "Mat \<Rightarrow> bool" where
  "Mat_wf m =
     (int (length (mat_data m)) = mat_rows m * mat_cols m
      \<and> list_all (\<lambda>px. int (length px) = mat_channels m) (mat_data m))"

text \<open>
  A decoded frame fits the image frame that \<^verbatim>\<open>Process\<close> allocates: it has \<^verbatim>\<open>height_\<close>
  rows, \<^verbatim>\<open>width_\<close> columns and the channels of \<^verbatim>\<open>format_\<close>.
\<close>

definition fits :: "'s Calculator \<Rightarrow> Mat \<Rightarrow> bool" where
  "fits calc frame =
     (mat_rows frame = height calc \<and> mat_cols frame = width calc
      \<and> mat_channels frame = NumberOfChannels (format calc))"

text \<open>The relation of a decoded pixel to the pixel written to the image frame.\<close>

fun reordered3 :: "pixel \<Rightarrow> pixel \<Rightarrow> bool" where
  "reordered3 [b, g, r] [r', g', b'] = (r' = r \<and> g' = g \<and> b' = b)"
| "reordered3 src dst = False"

fun reordered4 :: "pixel \<Rightarrow> pixel \<Rightarrow> bool" where
  "reordered4 [b, g, r, a] [r', g', b', a'] = (r' = r \<and> g' = g \<and> b' = b \<and> a' = a)"
| "reordered4 src dst = False"

text \<open>
  An image frame holds a decoded frame in the format \<open>f\<close>: the decoded data as they
  are for \<^verbatim>\<open>GRAY8\<close>, and with every pixel reordered for \<^verbatim>\<open>SRGB\<close> and \<^verbatim>\<open>SRGBA\<close>.
\<close>

definition canonical :: "ImageFormat \<Rightarrow> Mat \<Rightarrow> ImageFrame \<Rightarrow> bool" where
  "canonical f frame image_frame =
     (Format image_frame = f \<and>
      (if f = GRAY8 then PixelData image_frame = Some (mat_data frame)
       else if f = SRGB then
         (case PixelData image_frame of
            None \<Rightarrow> False
          | Some px \<Rightarrow> list_all2 reordered3 (mat_data frame) px)
       else if f = SRGBA then
         (case PixelData image_frame of
            None \<Rightarrow> False
          | Some px \<Rightarrow> list_all2 reordered4 (mat_data frame) px)
       else True))"

text \<open>
  The timestamp of the last packet added to \<^verbatim>\<open>VIDEO\<close>, and \<open>Unset\<close> when there is
  none.
\<close>

definition last_emitted :: "Context \<Rightarrow> Timestamp" where
  "last_emitted cc =
     (case rev (video_timestamps (effects cc)) of [] \<Rightarrow> Unset | t # ts \<Rightarrow> t)"

text \<open>
  The invariant of a run: the timestamps emitted so far increase strictly, none of them
  is above \<^verbatim>\<open>prev_timestamp_\<close>, and \<^verbatim>\<open>prev_timestamp_\<close> is the last one emitted.
\<close>

definition monotone_output :: "'s Calculator \<Rightarrow> Context \<Rightarrow> bool" where
  "monotone_output calc cc =
     (sorted_wrt ts_less (video_timestamps (effects cc)) \<and>
      list_all (\<lambda>t. \<not> ts_less (prev_timestamp calc) t) (video_timestamps (effects cc)) \<and>
      prev_timestamp calc = last_emitted cc)"

text \<open>The header that lines 115 to 120 of \<^verbatim>\<open>Open\<close> build for the file at \<open>path\<close>.\<close>

definition Open_header :: "'s VideoCapture \<Rightarrow> string \<Rightarrow> VideoHeader" where
  "Open_header vc path =
     (let c0 = vc_new vc path in
      \<lparr>header_format = GetImageFormat (mat_channels (first_frame vc path)),
       header_width = double_to_int (vc_get vc c0 CAP_PROP_FRAME_WIDTH),
       header_height = double_to_int (vc_get vc c0 CAP_PROP_FRAME_HEIGHT),
       header_frame_rate = vc_get vc c0 CAP_PROP_FPS,
       header_duration =
         real_of_int (double_to_int (vc_get vc c0 CAP_PROP_FRAME_COUNT))
           / vc_get vc c0 CAP_PROP_FPS\<rparr>)"

subsection \<open>A decode session over a list of frames\<close>

text \<open>
  An instance of the session interface, on which the theorems below are exercised: a
  file is its path, its container metadata and its frames, each with the position in
  milliseconds that the session reports while that frame is the next one. A session
  is open or not and holds the frames not yet read. Setting
  \<^verbatim>\<open>CAP_PROP_POS_AVI_RATIO\<close> to 0 rewinds it. The positions of the files below are whole
  numbers of milliseconds, whose product with 1000 a \<^verbatim>\<open>double\<close> holds exactly, so the
  instance takes the product of the reals.
\<close>

record VideoFile =
  file_path :: string
  file_width :: real
  file_height :: real
  file_fps :: real
  file_frame_count :: real
  file_frames :: "(real \<times> Mat) list"

record Session =
  sess_opened :: bool
  sess_rest :: "(real \<times> Mat) list"

definition file_get :: "VideoFile \<Rightarrow> Session \<Rightarrow> VideoCaptureProperties \<Rightarrow> real" where
  "file_get f s p =
     (case p of
        CAP_PROP_POS_MSEC \<Rightarrow> (case sess_rest s of [] \<Rightarrow> 0 | (ms, frame) # rest \<Rightarrow> ms)
      | CAP_PROP_POS_AVI_RATIO \<Rightarrow> 0
      | CAP_PROP_FRAME_WIDTH \<Rightarrow> file_width f
      | CAP_PROP_FRAME_HEIGHT \<Rightarrow> file_height f
      | CAP_PROP_FPS \<Rightarrow> file_fps f
      | CAP_PROP_FRAME_COUNT \<Rightarrow> file_frame_count f)"

definition file_read :: "Session \<Rightarrow> Mat \<times> Session" where
  "file_read s =
     (case sess_rest s of
        [] \<Rightarrow> (\<lparr>mat_rows = 0, mat_cols = 0, mat_channels = 1, mat_data = []\<rparr>, s)
      | (ms, frame) # rest \<Rightarrow> (frame, s\<lparr>sess_rest := rest\<rparr>))"

definition file_set ::
  "VideoFile \<Rightarrow> Session \<Rightarrow> VideoCaptureProperties \<Rightarrow> real \<Rightarrow> bool \<times> Session" where
  "file_set f s p v =
     (if p = CAP_PROP_POS_AVI_RATIO \<and> v = 0 \<and> sess_opened s
      then (True, s\<lparr>sess_rest := file_frames f\<rparr>) else (False, s))"

definition file_capture :: "VideoFile \<Rightarrow> Session VideoCapture" where
  "file_capture f =
     \<lparr>vc_new = (\<lambda>path. if path = file_path f
                        then \<lparr>sess_opened = True, sess_rest = file_frames f\<rparr>
                        else \<lparr>sess_opened = False, sess_rest = []\<rparr>),
      vc_isOpened = sess_opened,
      vc_get = file_get f,
      vc_read = file_read,
      vc_set = file_set f,
      vc_release = (\<lambda>s. s\<lparr>sess_opened := False, sess_rest := []\<rparr>),
      double_times = (\<lambda>x y. x * y)\<rparr>"

text \<open>
  The file of the spec's scenario: 3 channels, 30 frames per second, and the positions
  0, 33, 33 and 66 milliseconds.
\<close>

definition bgr_file :: VideoFile where
  "bgr_file =
     \<lparr>file_path = ''a.mp4'', file_width = 2, file_height = 1, file_fps = 30,
      file_frame_count = 4,
      file_frames =
        [(0, \<lparr>mat_rows = 1, mat_cols = 2, mat_channels = 3, mat_data = [[1, 2, 3], [4, 5, 6]]\<rparr>),
         (33, \<lparr>mat_rows = 1, mat_cols = 2, mat_channels = 3, mat_data = [[7, 8, 9], [10, 11, 12]]\<rparr>),
         (33, \<lparr>mat_rows = 1, mat_cols = 2, mat_channels = 3, mat_data = [[13, 14, 15], [16, 17, 18]]\<rparr>),
         (66, \<lparr>mat_rows = 1, mat_cols = 2, mat_channels = 3, mat_data = [[19, 20, 21], [22, 23, 24]]\<rparr>)]\<rparr>"

text \<open>A file whose frames have two channels and whose frame rate is reported as 0.\<close>

definition two_channel_file :: VideoFile where
  "two_channel_file =
     \<lparr>file_path = ''b.avi'', file_width = 1, file_height = 1, file_fps = 0,
      file_frame_count = 1,
      file_frames = [(0, \<lparr>mat_rows = 1, mat_cols = 1, mat_channels = 2, mat_data = [[1, 2]]\<rparr>)]\<rparr>"

text \<open>A file of one channel, and one of three channels whose frame count is reported as 0.\<close>

definition gray_file :: VideoFile where
  "gray_file =
     \<lparr>file_path = ''g.avi'', file_width = 2, file_height = 1, file_fps = 25,
      file_frame_count = 2,
      file_frames =
        [(0, \<lparr>mat_rows = 1, mat_cols = 2, mat_channels = 1, mat_data = [[5], [6]]\<rparr>),
         (40, \<lparr>mat_rows = 1, mat_cols = 2, mat_channels = 1, mat_data = [[7], [8]]\<rparr>)]\<rparr>"

definition no_count_file :: VideoFile where
  "no_count_file =
     \<lparr>file_path = ''n.avi'', file_width = 1, file_height = 1, file_fps = 25,
      file_frame_count = 0,
      file_frames = [(0, \<lparr>mat_rows = 1, mat_cols = 1, mat_channels = 3, mat_data = [[1, 2, 3]]\<rparr>)]\<rparr>"

text \<open>
  A calculator as the framework constructs it, with the members that have no
  initialiser at zero, and the context of a run that has produced nothing yet.
\<close>

definition new_calculator :: "Session Calculator" where
  "new_calculator =
     \<lparr>cap = None, width = 0, height = 0, frame_count = 0, decoded_frames = 0,
      format = UNKNOWN, prev_timestamp = Unset\<rparr>"

definition new_context :: "string \<Rightarrow> bool \<Rightarrow> Context" where
  "new_context path prestream =
     \<lparr>INPUT_FILE_PATH = path, HasTag_VIDEO_PRESTREAM = prestream, effects = []\<rparr>"

text \<open>
  Two states of a run on the scenario's file: after the frames at 0 and 33 milliseconds
  have been emitted, and after the last frame has been read.
\<close>

definition after_two_frames :: "Session Calculator" where
  "after_two_frames =
     \<lparr>cap = Some \<lparr>sess_opened = True, sess_rest = drop 2 (file_frames bgr_file)\<rparr>,
      width = 2, height = 1, frame_count = 4, decoded_frames = 2, format = SRGB,
      prev_timestamp = Timestamp 33000\<rparr>"

definition at_end_of_file :: "Session Calculator" where
  "at_end_of_file =
     \<lparr>cap = Some \<lparr>sess_opened = True, sess_rest = []\<rparr>,
      width = 2, height = 1, frame_count = 4, decoded_frames = 3, format = SRGB,
      prev_timestamp = Timestamp 66000\<rparr>"

text \<open>
  The run on the scenario's file: the header, the calculator and the context after
  \<^verbatim>\<open>Open\<close>, and the context after the frames at 0 and 33 milliseconds.
\<close>

definition bgr_header :: VideoHeader where
  "bgr_header =
     \<lparr>header_format = SRGB, header_width = 2, header_height = 1, header_frame_rate = 30,
      header_duration = 4 / 30\<rparr>"

definition bgr_opened :: "Session Calculator" where
  "bgr_opened =
     \<lparr>cap = Some \<lparr>sess_opened = True, sess_rest = file_frames bgr_file\<rparr>,
      width = 2, height = 1, frame_count = 4, decoded_frames = 0, format = SRGB,
      prev_timestamp = Unset\<rparr>"

definition bgr_opened_context :: Context where
  "bgr_opened_context =
     \<lparr>INPUT_FILE_PATH = ''a.mp4'', HasTag_VIDEO_PRESTREAM = True,
      effects = [Add_VIDEO_PRESTREAM bgr_header PreStream, Close_VIDEO_PRESTREAM]\<rparr>"

definition after_two_frames_context :: Context where
  "after_two_frames_context =
     \<lparr>INPUT_FILE_PATH = ''a.mp4'', HasTag_VIDEO_PRESTREAM = True,
      effects =
        [Add_VIDEO_PRESTREAM bgr_header PreStream, Close_VIDEO_PRESTREAM,
         Add_VIDEO \<lparr>Format = SRGB, Width = 2, Height = 1,
                    PixelData = Some [[3, 2, 1], [6, 5, 4]]\<rparr> (Timestamp 0),
         Add_VIDEO \<lparr>Format = SRGB, Width = 2, Height = 1,
                    PixelData = Some [[9, 8, 7], [12, 11, 10]]\<rparr> (Timestamp 33000)]\<rparr>"

text \<open>
  The run on the one-channel file: the calculator after \<^verbatim>\<open>Open\<close>, the session after the
  first frame has been read, and the image frame made from the first frame.
\<close>

definition gray_opened :: "Session Calculator" where
  "gray_opened =
     \<lparr>cap = Some \<lparr>sess_opened = True, sess_rest = file_frames gray_file\<rparr>,
      width = 2, height = 1, frame_count = 2, decoded_frames = 0, format = GRAY8,
      prev_timestamp = Unset\<rparr>"

definition gray_second :: Session where
  "gray_second =
     \<lparr>sess_opened = True,
      sess_rest = [(40, \<lparr>mat_rows = 1, mat_cols = 2, mat_channels = 1, mat_data = [[7], [8]]\<rparr>)]\<rparr>"

definition gray_image :: ImageFrame where
  "gray_image = \<lparr>Format = GRAY8, Width = 2, Height = 1, PixelData = Some [[5], [6]]\<rparr>"

text \<open>
  A one-channel file whose container reports the width 4 while its frame has 2 columns,
  and the calculator after \<^verbatim>\<open>Open\<close> on it.
\<close>

definition wide_gray_file :: VideoFile where
  "wide_gray_file =
     \<lparr>file_path = ''w.avi'', file_width = 4, file_height = 1, file_fps = 25,
      file_frame_count = 1,
      file_frames =
        [(0, \<lparr>mat_rows = 1, mat_cols = 2, mat_channels = 1, mat_data = [[5], [6]]\<rparr>)]\<rparr>"

definition wide_gray_opened :: "Session Calculator" where
  "wide_gray_opened =
     \<lparr>cap = Some \<lparr>sess_opened = True, sess_rest = file_frames wide_gray_file\<rparr>,
      width = 4, height = 1, frame_count = 1, decoded_frames = 0, format = GRAY8,
      prev_timestamp = Unset\<rparr>"



section \<open>Properties\<close>

subsection \<open>Auxiliary facts\<close>

lemma Process_stop:
  assumes "cap calc = Some c" and "Mat_empty (fst (vc_read vc c))"
  shows "Process vc calc cc = Inr (StatusStop, calc\<lparr>cap := Some (snd (vc_read vc c))\<rparr>, cc)"
  using assms by (cases "vc_read vc c") (simp add: Process_def Let_def)

lemma ts_less_irrefl: "\<not> ts_less t t"
  by (cases t) simp_all

lemma ts_less_trans: "ts_less a b \<Longrightarrow> ts_less b c \<Longrightarrow> ts_less a c"
  by (cases a; cases b; cases c) simp_all

lemma ts_less_linear: "ts_less a b \<or> a = b \<or> ts_less b a"
  by (cases a; cases b) auto

lemma ts_less_asym: "ts_less a b \<Longrightarrow> \<not> ts_less b a"
  by (cases a; cases b) simp_all

lemma video_timestamps_append:
  "video_timestamps (xs @ ys) = video_timestamps xs @ video_timestamps ys"
  by (induction xs rule: video_timestamps.induct) simp_all

lemma those_bgr2rgb:
  "those (map bgr2rgb xs) = Some ys \<Longrightarrow> list_all2 reordered3 xs ys"
proof (induction xs arbitrary: ys)
  case Nil
  then show ?case by simp
next
  case (Cons x xs)
  then show ?case
    by (cases x rule: bgr2rgb.cases) (auto split: option.splits)
qed

lemma those_bgra2rgba:
  "those (map bgra2rgba xs) = Some ys \<Longrightarrow> list_all2 reordered4 xs ys"
proof (induction xs arbitrary: ys)
  case Nil
  then show ?case by simp
next
  case (Cons x xs)
  then show ?case
    by (cases x rule: bgra2rgba.cases) (auto split: option.splits)
qed

lemma Process_frame:
  assumes c: "cap calc = Some c" and ne: "\<not> Mat_empty (fst (vc_read vc c))"
    and nx: "Process vc calc cc \<noteq> Inl cv_Exception"
  shows "\<exists>image_frame.
           Format image_frame = format calc
           \<and> Width image_frame = width calc \<and> Height image_frame = height calc
           \<and> (fits calc (fst (vc_read vc c)) \<longrightarrow>
                canonical (format calc) (fst (vc_read vc c)) image_frame)
           \<and> (format calc = GRAY8 \<and> \<not> fits calc (fst (vc_read vc c)) \<longrightarrow>
                PixelData image_frame = None)
           \<and> Process vc calc cc =
               Inr (Process_output (calc\<lparr>cap := Some (snd (vc_read vc c))\<rparr>) cc image_frame
                      (position_timestamp vc c))"
proof -
  obtain frame c' where r: "vc_read vc c = (frame, c')"
    by (cases "vc_read vc c")
  from ne r have ne': "\<not> Mat_empty frame" by simp
  let ?new = "ImageFrame_new (format calc) (width calc) (height calc)"
  show ?thesis
  proof (cases "format calc")
    case GRAY8
    with c r ne' show ?thesis
      by (intro exI [of _ "if fits calc frame
                           then ?new\<lparr>PixelData := Some (mat_data frame)\<rparr> else ?new"])
         (simp add: Process_def Let_def ImageFrame_new_def canonical_def
            position_timestamp_def fits_def view_holds_def)
  next
    case SRGB
    with c r ne' nx obtain image_frame where
      px: "cvtColor frame ?new COLOR_BGR2RGB = Some image_frame"
      by (auto simp add: Process_def Let_def split: option.splits)
    then obtain px where "those (map bgr2rgb (mat_data frame)) = Some px"
      and "image_frame = ?new\<lparr>PixelData := Some px\<rparr>"
      by (auto split: option.splits if_splits)
    with those_bgr2rgb [of "mat_data frame" px] SRGB
    have "canonical (format calc) frame image_frame"
      and "Format image_frame = format calc" and "Width image_frame = width calc"
      and "Height image_frame = height calc"
      by (simp_all add: canonical_def ImageFrame_new_def)
    with SRGB c r ne' px show ?thesis
      by (intro exI [of _ image_frame])
         (simp add: Process_def Let_def position_timestamp_def)
  next
    case SRGBA
    with c r ne' nx obtain image_frame where
      px: "cvtColor frame ?new COLOR_BGRA2RGBA = Some image_frame"
      by (auto simp add: Process_def Let_def split: option.splits)
    then obtain px where "those (map bgra2rgba (mat_data frame)) = Some px"
      and "image_frame = ?new\<lparr>PixelData := Some px\<rparr>"
      by (auto split: option.splits if_splits)
    with those_bgra2rgba [of "mat_data frame" px] SRGBA
    have "canonical (format calc) frame image_frame"
      and "Format image_frame = format calc" and "Width image_frame = width calc"
      and "Height image_frame = height calc"
      by (simp_all add: canonical_def ImageFrame_new_def)
    with SRGBA c r ne' px show ?thesis
      by (intro exI [of _ image_frame])
         (simp add: Process_def Let_def position_timestamp_def)
  next
    case UNKNOWN
    with c r ne' show ?thesis
      by (intro exI [of _ ?new])
         (simp add: Process_def Let_def ImageFrame_new_def canonical_def
            position_timestamp_def)
  qed
qed

lemma Process_frame_output:
  assumes "cap calc = Some c" and "\<not> Mat_empty (fst (vc_read vc c))"
    and "Process vc calc cc = Inr (st, calc', cc')"
  shows "\<exists>image_frame.
           Process_output (calc\<lparr>cap := Some (snd (vc_read vc c))\<rparr>) cc image_frame
             (position_timestamp vc c) = (st, calc', cc')"
proof -
  from assms(3) have "Process vc calc cc \<noteq> Inl cv_Exception" by simp
  from Process_frame [OF assms(1,2) this] obtain image_frame where
    "Process vc calc cc =
       Inr (Process_output (calc\<lparr>cap := Some (snd (vc_read vc c))\<rparr>) cc image_frame
              (position_timestamp vc c))"
    by blast
  with assms(3) show ?thesis by auto
qed

lemmas file_capture_simps =
  file_capture_def file_get_def file_read_def file_set_def Mat_empty_def
  position_timestamp_def double_to_int_def view_holds_def ImageFrame_new_def

lemma Open_OkStatus:
  assumes "Open vc calc cc = (OkStatus, calc', cc')"
  defines "c0 \<equiv> vc_new vc (INPUT_FILE_PATH cc)"
  shows "vc_isOpened vc c0"
    and "\<not> Mat_empty (first_frame vc (INPUT_FILE_PATH cc))"
    and "GetImageFormat (mat_channels (first_frame vc (INPUT_FILE_PATH cc))) \<noteq> UNKNOWN"
    and "0 < vc_get vc c0 CAP_PROP_FPS"
    and "0 < double_to_int (vc_get vc c0 CAP_PROP_FRAME_COUNT)"
    and "0 < double_to_int (vc_get vc c0 CAP_PROP_FRAME_WIDTH)"
    and "0 < double_to_int (vc_get vc c0 CAP_PROP_FRAME_HEIGHT)"
    and "calc' = calc
           \<lparr>cap := Some (snd (vc_set vc (snd (vc_read vc c0)) CAP_PROP_POS_AVI_RATIO 0)),
            width := double_to_int (vc_get vc c0 CAP_PROP_FRAME_WIDTH),
            height := double_to_int (vc_get vc c0 CAP_PROP_FRAME_HEIGHT),
            frame_count := double_to_int (vc_get vc c0 CAP_PROP_FRAME_COUNT),
            format := GetImageFormat (mat_channels (first_frame vc (INPUT_FILE_PATH cc)))\<rparr>"
    and "cc' = (if HasTag_VIDEO_PRESTREAM cc
                then cc\<lparr>effects := effects cc
                       @ [Add_VIDEO_PRESTREAM (Open_header vc (INPUT_FILE_PATH cc)) PreStream,
                          Close_VIDEO_PRESTREAM]\<rparr>
                else cc)"
  using assms(1) unfolding c0_def
  by (auto simp add: Open_def Let_def first_frame_def Open_header_def
      Fail_to_open_def Fail_to_read_any_frames_def Unsupported_video_format_def
      Fail_to_make_video_header_def split: prod.splits if_splits)

subsection \<open>C10: a discarded frame leaves the emission state as it was\<close>

text \<open>
  C10. On a step of \<^verbatim>\<open>Process\<close> that decodes a frame, reaches the comparison of
  line 160 and finds that \<^verbatim>\<open>prev_timestamp_ < timestamp\<close> does not hold, the step
  returns \<^verbatim>\<open>OkStatus\<close>; the calculator differs from the one before the step only in
  the session, which has read one frame, so \<^verbatim>\<open>prev_timestamp_\<close> and
  \<^verbatim>\<open>decoded_frames_\<close> keep their values; and the context is the same, so nothing was
  added to \<^verbatim>\<open>VIDEO\<close>.
\<close>

theorem Process_discards_frame:
  assumes "cap calc = Some c"
    and "\<not> Mat_empty (fst (vc_read vc c))"
    and "Process vc calc cc \<noteq> Inl cv_Exception"
    and "\<not> ts_less (prev_timestamp calc) (position_timestamp vc c)"
  shows "Process vc calc cc = Inr (OkStatus, calc\<lparr>cap := Some (snd (vc_read vc c))\<rparr>, cc)"
  using Process_frame [OF assms(1-3)] assms(4)
  by (auto simp add: Process_output_def)

theorem Process_discards_frame_witness:
  "cap after_two_frames = Some \<lparr>sess_opened = True, sess_rest = drop 2 (file_frames bgr_file)\<rparr>
   \<and> \<not> Mat_empty (fst (vc_read (file_capture bgr_file)
                      \<lparr>sess_opened = True, sess_rest = drop 2 (file_frames bgr_file)\<rparr>))
   \<and> Process (file_capture bgr_file) after_two_frames (new_context ''a.mp4'' False)
        \<noteq> Inl cv_Exception
   \<and> \<not> ts_less (prev_timestamp after_two_frames)
         (position_timestamp (file_capture bgr_file)
            \<lparr>sess_opened = True, sess_rest = drop 2 (file_frames bgr_file)\<rparr>)
   \<and> Process (file_capture bgr_file) after_two_frames (new_context ''a.mp4'' False) =
       Inr (OkStatus,
            after_two_frames\<lparr>cap := Some \<lparr>sess_opened = True,
                                           sess_rest = drop 3 (file_frames bgr_file)\<rparr>\<rparr>,
            new_context ''a.mp4'' False)"
proof -
  let ?s = "\<lparr>sess_opened = True, sess_rest = drop 2 (file_frames bgr_file)\<rparr>"
  have h1: "cap after_two_frames = Some ?s"
    by (simp add: after_two_frames_def)
  have h2: "\<not> Mat_empty (fst (vc_read (file_capture bgr_file) ?s))"
    by (simp add: file_capture_simps bgr_file_def)
  have h3: "Process (file_capture bgr_file) after_two_frames (new_context ''a.mp4'' False)
              \<noteq> Inl cv_Exception"
    by (simp add: Process_def Let_def Process_output_def after_two_frames_def
        file_capture_simps bgr_file_def)
  have h4: "\<not> ts_less (prev_timestamp after_two_frames)
               (position_timestamp (file_capture bgr_file) ?s)"
    by (simp add: after_two_frames_def file_capture_simps bgr_file_def)
  have "snd (vc_read (file_capture bgr_file) ?s)
          = \<lparr>sess_opened = True, sess_rest = drop 3 (file_frames bgr_file)\<rparr>"
    by (simp add: file_capture_simps bgr_file_def)
  with Process_discards_frame [OF h1 h2 h3 h4] h1 h2 h3 h4 show ?thesis
    by simp
qed

subsection \<open>C4: the end of the stream\<close>

lemma Process_again_stop:
  assumes "cap calc = Some c" and "\<forall>k. Mat_empty (fst (vc_read vc (reads vc k c)))"
  shows "\<exists>calc'. Process_again vc n calc cc = Inr (StatusStop, calc', cc)"
  using assms
proof (induction n arbitrary: calc c)
  case 0
  from 0(2) have "Mat_empty (fst (vc_read vc (reads vc 0 c)))" by blast
  with 0(1) show ?case by (simp add: Process_stop)
next
  case (Suc n)
  from Suc(3) have e: "Mat_empty (fst (vc_read vc (reads vc 0 c)))" by blast
  let ?calc = "calc\<lparr>cap := Some (snd (vc_read vc c))\<rparr>"
  from Suc(2) e have p: "Process vc calc cc = Inr (StatusStop, ?calc, cc)"
    by (simp add: Process_stop)
  have "\<forall>k. Mat_empty (fst (vc_read vc (reads vc k (snd (vc_read vc c)))))"
  proof
    fix k
    from Suc(3) have "Mat_empty (fst (vc_read vc (reads vc (Suc k) c)))" by blast
    then show "Mat_empty (fst (vc_read vc (reads vc k (snd (vc_read vc c)))))" by simp
  qed
  with Suc.IH [of ?calc "snd (vc_read vc c)"]
  have "\<exists>calc'. Process_again vc n ?calc cc = Inr (StatusStop, calc', cc)" by simp
  with p show ?case by simp
qed

lemma reads_end_of_file:
  "reads (file_capture f) k \<lparr>sess_opened = True, sess_rest = []\<rparr>
     = \<lparr>sess_opened = True, sess_rest = []\<rparr>"
  by (induction k) (simp_all add: file_capture_def file_read_def)

text \<open>
  C4. When the \<^verbatim>\<open>read\<close> of a step yields no frame, the step returns
  \<^verbatim>\<open>StatusStop\<close>, which is neither an error status nor a fault, and the context is
  unchanged, so nothing is emitted on \<^verbatim>\<open>VIDEO\<close>. When every later \<^verbatim>\<open>read\<close> of the
  session yields no frame either, every further invocation of \<^verbatim>\<open>Process\<close> returns
  \<^verbatim>\<open>StatusStop\<close> with the context unchanged.
\<close>

theorem Process_at_end_of_stream:
  assumes "cap calc = Some c"
  shows "(Mat_empty (fst (vc_read vc c)) \<longrightarrow>
            Process vc calc cc
              = Inr (StatusStop, calc\<lparr>cap := Some (snd (vc_read vc c))\<rparr>, cc))
         \<and> ((\<forall>k. Mat_empty (fst (vc_read vc (reads vc k c)))) \<longrightarrow>
            (\<forall>n. \<exists>calc'. Process_again vc n calc cc = Inr (StatusStop, calc', cc)))"
  using assms Process_stop [of calc c vc cc] Process_again_stop [of calc c vc _ cc]
  by blast

theorem Process_at_end_of_stream_witness:
  "cap at_end_of_file = Some \<lparr>sess_opened = True, sess_rest = []\<rparr>
   \<and> Mat_empty (fst (vc_read (file_capture bgr_file) \<lparr>sess_opened = True, sess_rest = []\<rparr>))
   \<and> (\<forall>k. Mat_empty (fst (vc_read (file_capture bgr_file)
              (reads (file_capture bgr_file) k \<lparr>sess_opened = True, sess_rest = []\<rparr>))))
   \<and> Process (file_capture bgr_file) at_end_of_file (new_context ''a.mp4'' False)
       = Inr (StatusStop, at_end_of_file, new_context ''a.mp4'' False)
   \<and> (\<exists>calc'. Process_again (file_capture bgr_file) 2 at_end_of_file
                 (new_context ''a.mp4'' False)
               = Inr (StatusStop, calc', new_context ''a.mp4'' False))"
proof -
  let ?s = "\<lparr>sess_opened = True, sess_rest = []\<rparr>"
  have h1: "cap at_end_of_file = Some ?s"
    by (simp add: at_end_of_file_def)
  have h2: "Mat_empty (fst (vc_read (file_capture bgr_file) ?s))"
    by (simp add: file_capture_simps)
  have h3: "\<forall>k. Mat_empty (fst (vc_read (file_capture bgr_file)
                   (reads (file_capture bgr_file) k ?s)))"
    by (simp add: reads_end_of_file) (simp add: file_capture_simps)
  have s: "at_end_of_file\<lparr>cap := Some (snd (vc_read (file_capture bgr_file) ?s))\<rparr>
             = at_end_of_file"
    by (simp add: at_end_of_file_def file_capture_simps)
  from Process_at_end_of_stream [OF h1, of "file_capture bgr_file" "new_context ''a.mp4'' False"]
    h1 h2 h3 s
  show ?thesis by simp
qed

subsection \<open>C1: the timestamps on VIDEO increase strictly\<close>

lemma last_emitted_snoc:
  "effects cc' = effects cc @ [Add_VIDEO image_frame t] \<Longrightarrow> last_emitted cc' = t"
  by (simp add: last_emitted_def video_timestamps_append)

lemma Process_output_monotone:
  assumes "monotone_output calc cc"
    and "Process_output calc cc image_frame t = (st, calc', cc')"
  shows "monotone_output calc' cc'"
proof (cases "ts_less (prev_timestamp calc) t")
  case False
  with assms show ?thesis by (simp add: Process_output_def)
next
  case True
  with assms(2) have calc': "prev_timestamp calc' = t"
    and cc': "effects cc' = effects cc @ [Add_VIDEO image_frame t]"
    by (auto simp add: Process_output_def)
  let ?old = "video_timestamps (effects cc)"
  from assms(1) have sorted: "sorted_wrt ts_less ?old"
    and below: "\<forall>u \<in> set ?old. \<not> ts_less (prev_timestamp calc) u"
    unfolding monotone_output_def list_all_iff by blast+
  have less: "ts_less u t" if "u \<in> set ?old" for u
  proof -
    from below that have "\<not> ts_less (prev_timestamp calc) u" by blast
    then have "u = prev_timestamp calc \<or> ts_less u (prev_timestamp calc)"
      using ts_less_linear [of u "prev_timestamp calc"] by blast
    with True show ?thesis by (auto intro: ts_less_trans)
  qed
  have "sorted_wrt ts_less (?old @ [t])"
    using sorted less by (simp add: sorted_wrt_append)
  moreover have "\<forall>u \<in> set (?old @ [t]). \<not> ts_less t u"
    using less by (auto dest: ts_less_asym simp add: ts_less_irrefl)
  ultimately show ?thesis
    using calc' cc' last_emitted_snoc [OF cc']
    by (simp add: monotone_output_def list_all_iff video_timestamps_append)
qed

lemma monotone_output_cap:
  "monotone_output (calc\<lparr>cap := x\<rparr>) cc = monotone_output calc cc"
  by (simp add: monotone_output_def)

lemma Process_monotone:
  assumes "monotone_output calc cc" and "Process vc calc cc = Inr (st, calc', cc')"
  shows "monotone_output calc' cc'"
proof (cases "cap calc")
  case None
  with assms(2) show ?thesis by (simp add: Process_def)
next
  case (Some c)
  show ?thesis
  proof (cases "Mat_empty (fst (vc_read vc c))")
    case True
    from Process_stop [OF Some True, of cc] assms show ?thesis
      by (auto simp add: monotone_output_cap)
  next
    case False
    from Process_frame_output [OF Some False assms(2)]
    obtain image_frame where
      "Process_output (calc\<lparr>cap := Some (snd (vc_read vc c))\<rparr>) cc image_frame
         (position_timestamp vc c) = (st, calc', cc')"
      by blast
    with assms(1) show ?thesis
      using Process_output_monotone monotone_output_cap by blast
  qed
qed

lemma Process_steps_monotone:
  assumes "monotone_output calc cc" and "Process_steps vc n calc cc = Inr (st, calc', cc')"
  shows "monotone_output calc' cc'"
  using assms
proof (induction n arbitrary: calc cc)
  case 0
  then show ?case by simp
next
  case (Suc n)
  from Suc.prems(2) obtain st1 calc1 cc1 where
    p: "Process vc calc cc = Inr (st1, calc1, cc1)"
    by (auto split: sum.splits)
  from Process_monotone [OF Suc.prems(1) p] have m: "monotone_output calc1 cc1" .
  show ?case
  proof (cases "st1 = OkStatus")
    case True
    with Suc.prems(2) p have "Process_steps vc n calc1 cc1 = Inr (st, calc', cc')" by simp
    with Suc.IH m show ?thesis by blast
  next
    case False
    with Suc.prems(2) p m show ?thesis by auto
  qed
qed

lemma Open_monotone:
  assumes "constructed calc" and "video_timestamps (effects cc) = []"
    and "Open vc calc cc = (OkStatus, calc', cc')"
  shows "monotone_output calc' cc'"
  using assms(1,2) Open_OkStatus(8,9) [OF assms(3)]
  by (simp add: monotone_output_def constructed_def last_emitted_def
      video_timestamps_append)

text \<open>
  C1. Take a calculator on which no method has run and a context with no packet on
  \<^verbatim>\<open>VIDEO\<close>, a successful \<^verbatim>\<open>Open\<close>, and any number of steps of \<^verbatim>\<open>Process\<close>. Then the
  timestamps of the packets emitted on \<^verbatim>\<open>VIDEO\<close> so far increase strictly, and
  \<^verbatim>\<open>prev_timestamp_\<close> is the timestamp of the last packet emitted (\<open>Unset\<close> when there
  is none). On the next step that decodes a frame and reaches line 160, \<^verbatim>\<open>Process\<close>
  returns \<^verbatim>\<open>OkStatus\<close>, and it adds the frame to \<^verbatim>\<open>VIDEO\<close>, with the timestamp derived
  in this step, if and only if that timestamp is strictly greater than the last one
  emitted; otherwise it adds nothing.
\<close>

theorem VIDEO_timestamps_strictly_increasing:
  assumes "constructed calc0" and "video_timestamps (effects cc0) = []"
    and "Open vc calc0 cc0 = (OkStatus, calc1, cc1)"
    and "Process_steps vc n calc1 cc1 = Inr (st, calc, cc)"
  shows "sorted_wrt ts_less (video_timestamps (effects cc))
         \<and> prev_timestamp calc = last_emitted cc
         \<and> (\<forall>c. cap calc = Some c \<and> \<not> Mat_empty (fst (vc_read vc c))
                  \<and> Process vc calc cc \<noteq> Inl cv_Exception \<longrightarrow>
                (\<exists>calc' cc'. Process vc calc cc = Inr (OkStatus, calc', cc')
                   \<and> video_timestamps (effects cc') =
                       video_timestamps (effects cc)
                       @ (if ts_less (last_emitted cc) (position_timestamp vc c)
                          then [position_timestamp vc c] else [])))"
proof -
  from Open_monotone [OF assms(1-3)] assms(4)
  have m: "monotone_output calc cc" by (rule Process_steps_monotone)
  have "\<exists>calc' cc'. Process vc calc cc = Inr (OkStatus, calc', cc')
          \<and> video_timestamps (effects cc') =
              video_timestamps (effects cc)
              @ (if ts_less (last_emitted cc) (position_timestamp vc c)
                 then [position_timestamp vc c] else [])"
    if c: "cap calc = Some c" and f: "\<not> Mat_empty (fst (vc_read vc c))"
      and x: "Process vc calc cc \<noteq> Inl cv_Exception" for c
  proof -
    from m have "prev_timestamp calc = last_emitted cc"
      by (simp add: monotone_output_def)
    with Process_frame [OF c f x] show ?thesis
      by (auto simp add: Process_output_def video_timestamps_append)
  qed
  with m show ?thesis by (simp add: monotone_output_def)
qed

lemma Open_bgr_file:
  "Open (file_capture bgr_file) new_calculator (new_context ''a.mp4'' True)
     = (OkStatus, bgr_opened, bgr_opened_context)"
  by (simp add: Open_def Let_def file_capture_simps bgr_file_def new_calculator_def
      new_context_def bgr_opened_def bgr_opened_context_def bgr_header_def)

lemma Process_steps_bgr_file:
  "Process_steps (file_capture bgr_file) (Suc (Suc 0)) bgr_opened bgr_opened_context
     = Inr (OkStatus, after_two_frames, after_two_frames_context)"
  by (simp add: Process_def Process_output_def Let_def ImageFrame_new_def
      file_capture_simps bgr_file_def bgr_opened_def bgr_opened_context_def
      after_two_frames_def after_two_frames_context_def)

theorem VIDEO_timestamps_strictly_increasing_witness:
  "constructed new_calculator
   \<and> video_timestamps (effects (new_context ''a.mp4'' True)) = []
   \<and> Open (file_capture bgr_file) new_calculator (new_context ''a.mp4'' True)
       = (OkStatus, bgr_opened, bgr_opened_context)
   \<and> Process_steps (file_capture bgr_file) (Suc (Suc 0)) bgr_opened bgr_opened_context
       = Inr (OkStatus, after_two_frames, after_two_frames_context)
   \<and> video_timestamps (effects after_two_frames_context) = [Timestamp 0, Timestamp 33000]
   \<and> sorted_wrt ts_less (video_timestamps (effects after_two_frames_context))
   \<and> prev_timestamp after_two_frames = last_emitted after_two_frames_context
   \<and> cap after_two_frames
       = Some \<lparr>sess_opened = True, sess_rest = drop 2 (file_frames bgr_file)\<rparr>
   \<and> \<not> Mat_empty (fst (vc_read (file_capture bgr_file)
                         \<lparr>sess_opened = True, sess_rest = drop 2 (file_frames bgr_file)\<rparr>))
   \<and> Process (file_capture bgr_file) after_two_frames after_two_frames_context
       \<noteq> Inl cv_Exception
   \<and> \<not> ts_less (last_emitted after_two_frames_context)
         (position_timestamp (file_capture bgr_file)
            \<lparr>sess_opened = True, sess_rest = drop 2 (file_frames bgr_file)\<rparr>)
   \<and> (\<exists>calc' cc'.
         Process (file_capture bgr_file) after_two_frames after_two_frames_context
           = Inr (OkStatus, calc', cc')
         \<and> video_timestamps (effects cc') = [Timestamp 0, Timestamp 33000])"
proof -
  let ?vc = "file_capture bgr_file"
  let ?s = "\<lparr>sess_opened = True, sess_rest = drop 2 (file_frames bgr_file)\<rparr>"
  have h1: "constructed new_calculator"
    by (simp add: constructed_def new_calculator_def)
  have h2: "video_timestamps (effects (new_context ''a.mp4'' True)) = []"
    by (simp add: new_context_def)
  note h3 = Open_bgr_file and h4 = Process_steps_bgr_file
  have v: "video_timestamps (effects after_two_frames_context) = [Timestamp 0, Timestamp 33000]"
    by (simp add: after_two_frames_context_def)
  have c: "cap after_two_frames = Some ?s"
    by (simp add: after_two_frames_def)
  have f: "\<not> Mat_empty (fst (vc_read ?vc ?s))"
    by (simp add: file_capture_simps bgr_file_def)
  have x: "Process ?vc after_two_frames after_two_frames_context \<noteq> Inl cv_Exception"
    by (simp add: Process_def Let_def Process_output_def after_two_frames_def
        file_capture_simps bgr_file_def)
  have l: "\<not> ts_less (last_emitted after_two_frames_context) (position_timestamp ?vc ?s)"
    by (simp add: last_emitted_def v file_capture_simps bgr_file_def)
  note t = VIDEO_timestamps_strictly_increasing [OF h1 h2 h3 h4]
  from t have s: "sorted_wrt ts_less (video_timestamps (effects after_two_frames_context))"
    and p: "prev_timestamp after_two_frames = last_emitted after_two_frames_context"
    by blast+
  from t c f x obtain calc' cc' where
    "Process ?vc after_two_frames after_two_frames_context = Inr (OkStatus, calc', cc')"
    and "video_timestamps (effects cc') =
           video_timestamps (effects after_two_frames_context)
           @ (if ts_less (last_emitted after_two_frames_context) (position_timestamp ?vc ?s)
              then [position_timestamp ?vc ?s] else [])"
    by blast
  with l v have "\<exists>calc' cc'.
      Process ?vc after_two_frames after_two_frames_context = Inr (OkStatus, calc', cc')
      \<and> video_timestamps (effects cc') = [Timestamp 0, Timestamp 33000]"
    by simp
  with h1 h2 h3 h4 v s p c f x l show ?thesis by blast
qed

subsection \<open>C2 and C5: the checks of Open\<close>

lemma Open_not_opened:
  assumes "\<not> vc_isOpened vc (vc_new vc (INPUT_FILE_PATH cc))"
  shows "Open vc calc cc =
           (Fail_to_open (INPUT_FILE_PATH cc),
            calc\<lparr>cap := Some (vc_new vc (INPUT_FILE_PATH cc))\<rparr>, cc)"
  using assms by (simp add: Open_def Let_def)

lemma Open_context:
  "fst (Open vc calc cc) \<noteq> OkStatus \<Longrightarrow> snd (snd (Open vc calc cc)) = cc"
  by (auto simp add: Open_def Let_def split: prod.splits if_splits)

lemma Open_status:
  "fst (Open vc calc cc) = OkStatus \<or> (\<exists>msg. fst (Open vc calc cc) = InvalidArgumentError msg)"
  by (simp add: Open_def Let_def Fail_to_open_def Fail_to_read_any_frames_def
      Unsupported_video_format_def Fail_to_make_video_header_def split: prod.splits)

lemma Open_format:
  assumes "vc_isOpened vc (vc_new vc (INPUT_FILE_PATH cc))"
    and "\<not> Mat_empty (first_frame vc (INPUT_FILE_PATH cc))"
  shows "format (fst (snd (Open vc calc cc)))
           = GetImageFormat (mat_channels (first_frame vc (INPUT_FILE_PATH cc)))"
  using assms
  by (cases "vc_read vc (vc_new vc (INPUT_FILE_PATH cc))")
     (simp add: Open_def Let_def first_frame_def split: prod.splits)

lemma Open_UNKNOWN:
  assumes "vc_isOpened vc (vc_new vc (INPUT_FILE_PATH cc))"
    and "\<not> Mat_empty (first_frame vc (INPUT_FILE_PATH cc))"
    and "GetImageFormat (mat_channels (first_frame vc (INPUT_FILE_PATH cc))) = UNKNOWN"
  shows "fst (Open vc calc cc) = Unsupported_video_format (INPUT_FILE_PATH cc)"
    and "snd (snd (Open vc calc cc)) = cc"
  using assms
  by (cases "vc_read vc (vc_new vc (INPUT_FILE_PATH cc))";
      simp add: Open_def Let_def first_frame_def split: prod.splits)+

text \<open>
  C2. \<^verbatim>\<open>GetImageFormat\<close> maps 1 to \<^verbatim>\<open>GRAY8\<close>, 3 to \<^verbatim>\<open>SRGB\<close>, 4 to \<^verbatim>\<open>SRGBA\<close> and every other
  channel count to \<^verbatim>\<open>UNKNOWN\<close>. When the session opens and its first frame is not empty,
  \<^verbatim>\<open>Open\<close> sets \<^verbatim>\<open>format_\<close> to the image format of that frame's channel count, whatever
  the properties of the session report; and when that channel count is none of 1, 3
  and 4, \<^verbatim>\<open>Open\<close> returns the error ``Unsupported video format'' and leaves the context
  as it was: no header and no frame.
\<close>

theorem Open_format_of_channels:
  assumes "vc_isOpened vc (vc_new vc (INPUT_FILE_PATH cc))"
    and "\<not> Mat_empty (first_frame vc (INPUT_FILE_PATH cc))"
  shows "GetImageFormat 1 = GRAY8 \<and> GetImageFormat 3 = SRGB \<and> GetImageFormat 4 = SRGBA
         \<and> (n \<noteq> 1 \<and> n \<noteq> 3 \<and> n \<noteq> 4 \<longrightarrow> GetImageFormat n = UNKNOWN)
         \<and> format (fst (snd (Open vc calc cc)))
             = GetImageFormat (mat_channels (first_frame vc (INPUT_FILE_PATH cc)))
         \<and> (mat_channels (first_frame vc (INPUT_FILE_PATH cc)) \<noteq> 1
            \<and> mat_channels (first_frame vc (INPUT_FILE_PATH cc)) \<noteq> 3
            \<and> mat_channels (first_frame vc (INPUT_FILE_PATH cc)) \<noteq> 4 \<longrightarrow>
              fst (Open vc calc cc) = Unsupported_video_format (INPUT_FILE_PATH cc)
              \<and> snd (snd (Open vc calc cc)) = cc)"
  using Open_format [OF assms] Open_UNKNOWN [OF assms] by simp

theorem Open_format_of_channels_witness:
  "vc_isOpened (file_capture two_channel_file)
     (vc_new (file_capture two_channel_file) (INPUT_FILE_PATH (new_context ''b.avi'' True)))
   \<and> \<not> Mat_empty (first_frame (file_capture two_channel_file)
                     (INPUT_FILE_PATH (new_context ''b.avi'' True)))
   \<and> (2::int) \<noteq> 1 \<and> (2::int) \<noteq> 3 \<and> (2::int) \<noteq> 4
   \<and> GetImageFormat 2 = UNKNOWN
   \<and> mat_channels (first_frame (file_capture two_channel_file)
                     (INPUT_FILE_PATH (new_context ''b.avi'' True))) = 2
   \<and> format (fst (snd (Open (file_capture two_channel_file) new_calculator
                          (new_context ''b.avi'' True)))) = UNKNOWN
   \<and> fst (Open (file_capture two_channel_file) new_calculator (new_context ''b.avi'' True))
       = Unsupported_video_format ''b.avi''
   \<and> snd (snd (Open (file_capture two_channel_file) new_calculator
                  (new_context ''b.avi'' True)))
       = new_context ''b.avi'' True"
proof -
  let ?vc = "file_capture two_channel_file" and ?cc = "new_context ''b.avi'' True"
  have h1: "vc_isOpened ?vc (vc_new ?vc (INPUT_FILE_PATH ?cc))"
    by (simp add: file_capture_def two_channel_file_def new_context_def)
  have h2: "\<not> Mat_empty (first_frame ?vc (INPUT_FILE_PATH ?cc))"
    by (simp add: first_frame_def file_capture_simps two_channel_file_def new_context_def)
  have h3: "mat_channels (first_frame ?vc (INPUT_FILE_PATH ?cc)) = 2"
    by (simp add: first_frame_def file_capture_simps two_channel_file_def new_context_def)
  have h4: "INPUT_FILE_PATH ?cc = ''b.avi''"
    by (simp add: new_context_def)
  from Open_format_of_channels [OF h1 h2, of 2 new_calculator] h1 h2 h3 h4
  show ?thesis by simp
qed

text \<open>
  C5, as stated, fails: on a file whose frames have two channels and whose frame rate
  is reported as 0, \<^verbatim>\<open>Open\<close> returns ``Unsupported video format'', not ``Fail to make
  video header due to the incorrect metadata'': the format is checked first.
\<close>

theorem Open_invalid_metadata_counterexample:
  "vc_get (file_capture two_channel_file) (vc_new (file_capture two_channel_file) ''b.avi'')
     CAP_PROP_FPS \<le> 0
   \<and> fst (Open (file_capture two_channel_file) new_calculator (new_context ''b.avi'' True))
       = Unsupported_video_format ''b.avi''
   \<and> fst (Open (file_capture two_channel_file) new_calculator (new_context ''b.avi'' True))
       \<noteq> Fail_to_make_video_header ''b.avi''"
  by (simp add: Open_def Let_def file_capture_simps two_channel_file_def new_context_def
      new_calculator_def Unsupported_video_format_def Fail_to_make_video_header_def)

lemma Open_metadata_error:
  assumes "vc_isOpened vc (vc_new vc (INPUT_FILE_PATH cc))"
    and "\<not> Mat_empty (first_frame vc (INPUT_FILE_PATH cc))"
    and "GetImageFormat (mat_channels (first_frame vc (INPUT_FILE_PATH cc))) \<noteq> UNKNOWN"
    and "vc_get vc (vc_new vc (INPUT_FILE_PATH cc)) CAP_PROP_FPS \<le> 0
         \<or> double_to_int (vc_get vc (vc_new vc (INPUT_FILE_PATH cc)) CAP_PROP_FRAME_COUNT) \<le> 0
         \<or> double_to_int (vc_get vc (vc_new vc (INPUT_FILE_PATH cc)) CAP_PROP_FRAME_WIDTH) \<le> 0
         \<or> double_to_int (vc_get vc (vc_new vc (INPUT_FILE_PATH cc)) CAP_PROP_FRAME_HEIGHT) \<le> 0"
  shows "fst (Open vc calc cc) = Fail_to_make_video_header (INPUT_FILE_PATH cc)"
  using assms
  by (cases "vc_read vc (vc_new vc (INPUT_FILE_PATH cc))")
     (simp add: Open_def Let_def first_frame_def split: prod.splits)

text \<open>
  C5, amended. If the frame rate, the frame count, the width or the height that
  \<^verbatim>\<open>Open\<close> reads from the session is not positive, then \<^verbatim>\<open>Open\<close> fails with an
  \<^verbatim>\<open>InvalidArgumentError\<close> and leaves the context as it was: no header on
  \<^verbatim>\<open>VIDEO_PRESTREAM\<close> and no frame. The error is ``Fail to make video header due to the
  incorrect metadata'' when the session opened, its first frame is not empty and that
  frame has 1, 3 or 4 channels.
\<close>

theorem Open_rejects_invalid_metadata:
  assumes "vc_get vc (vc_new vc (INPUT_FILE_PATH cc)) CAP_PROP_FPS \<le> 0
         \<or> double_to_int (vc_get vc (vc_new vc (INPUT_FILE_PATH cc)) CAP_PROP_FRAME_COUNT) \<le> 0
         \<or> double_to_int (vc_get vc (vc_new vc (INPUT_FILE_PATH cc)) CAP_PROP_FRAME_WIDTH) \<le> 0
         \<or> double_to_int (vc_get vc (vc_new vc (INPUT_FILE_PATH cc)) CAP_PROP_FRAME_HEIGHT) \<le> 0"
  shows "(\<exists>msg. fst (Open vc calc cc) = InvalidArgumentError msg)
         \<and> snd (snd (Open vc calc cc)) = cc
         \<and> (vc_isOpened vc (vc_new vc (INPUT_FILE_PATH cc))
            \<and> \<not> Mat_empty (first_frame vc (INPUT_FILE_PATH cc))
            \<and> (mat_channels (first_frame vc (INPUT_FILE_PATH cc)) = 1
               \<or> mat_channels (first_frame vc (INPUT_FILE_PATH cc)) = 3
               \<or> mat_channels (first_frame vc (INPUT_FILE_PATH cc)) = 4) \<longrightarrow>
              fst (Open vc calc cc) = Fail_to_make_video_header (INPUT_FILE_PATH cc))"
proof -
  have not_ok: "fst (Open vc calc cc) \<noteq> OkStatus"
  proof
    assume "fst (Open vc calc cc) = OkStatus"
    then have "Open vc calc cc
                 = (OkStatus, fst (snd (Open vc calc cc)), snd (snd (Open vc calc cc)))"
      by (metis prod.collapse)
    from Open_OkStatus(4-7) [OF this] assms show False by linarith
  qed
  with Open_status [of vc calc cc]
  have "\<exists>msg. fst (Open vc calc cc) = InvalidArgumentError msg" by blast
  moreover from not_ok have "snd (snd (Open vc calc cc)) = cc" by (rule Open_context)
  moreover have "fst (Open vc calc cc) = Fail_to_make_video_header (INPUT_FILE_PATH cc)"
    if "vc_isOpened vc (vc_new vc (INPUT_FILE_PATH cc))"
      and "\<not> Mat_empty (first_frame vc (INPUT_FILE_PATH cc))"
      and "mat_channels (first_frame vc (INPUT_FILE_PATH cc)) = 1
           \<or> mat_channels (first_frame vc (INPUT_FILE_PATH cc)) = 3
           \<or> mat_channels (first_frame vc (INPUT_FILE_PATH cc)) = 4"
  proof -
    from that(3)
    have "GetImageFormat (mat_channels (first_frame vc (INPUT_FILE_PATH cc))) \<noteq> UNKNOWN"
      by auto
    from Open_metadata_error [OF that(1,2) this assms] show ?thesis .
  qed
  ultimately show ?thesis by blast
qed

theorem Open_rejects_invalid_metadata_witness:
  "double_to_int (vc_get (file_capture no_count_file)
       (vc_new (file_capture no_count_file) (INPUT_FILE_PATH (new_context ''n.avi'' True)))
       CAP_PROP_FRAME_COUNT) \<le> 0
   \<and> vc_isOpened (file_capture no_count_file)
       (vc_new (file_capture no_count_file) (INPUT_FILE_PATH (new_context ''n.avi'' True)))
   \<and> \<not> Mat_empty (first_frame (file_capture no_count_file)
                     (INPUT_FILE_PATH (new_context ''n.avi'' True)))
   \<and> mat_channels (first_frame (file_capture no_count_file)
                     (INPUT_FILE_PATH (new_context ''n.avi'' True))) = 3
   \<and> fst (Open (file_capture no_count_file) new_calculator (new_context ''n.avi'' True))
       = Fail_to_make_video_header ''n.avi''
   \<and> snd (snd (Open (file_capture no_count_file) new_calculator (new_context ''n.avi'' True)))
       = new_context ''n.avi'' True"
proof -
  let ?vc = "file_capture no_count_file" and ?cc = "new_context ''n.avi'' True"
  have p: "INPUT_FILE_PATH ?cc = ''n.avi''"
    by (simp add: new_context_def)
  have h0: "double_to_int (vc_get ?vc (vc_new ?vc (INPUT_FILE_PATH ?cc)) CAP_PROP_FRAME_COUNT)
              \<le> 0"
    by (simp add: file_capture_simps no_count_file_def new_context_def)
  have h1: "vc_isOpened ?vc (vc_new ?vc (INPUT_FILE_PATH ?cc))"
    by (simp add: file_capture_def no_count_file_def new_context_def)
  have h2: "\<not> Mat_empty (first_frame ?vc (INPUT_FILE_PATH ?cc))"
    by (simp add: first_frame_def file_capture_simps no_count_file_def new_context_def)
  have h3: "mat_channels (first_frame ?vc (INPUT_FILE_PATH ?cc)) = 3"
    by (simp add: first_frame_def file_capture_simps no_count_file_def new_context_def)
  from h0 have "vc_get ?vc (vc_new ?vc (INPUT_FILE_PATH ?cc)) CAP_PROP_FPS \<le> 0
      \<or> double_to_int (vc_get ?vc (vc_new ?vc (INPUT_FILE_PATH ?cc)) CAP_PROP_FRAME_COUNT) \<le> 0
      \<or> double_to_int (vc_get ?vc (vc_new ?vc (INPUT_FILE_PATH ?cc)) CAP_PROP_FRAME_WIDTH) \<le> 0
      \<or> double_to_int (vc_get ?vc (vc_new ?vc (INPUT_FILE_PATH ?cc)) CAP_PROP_FRAME_HEIGHT) \<le> 0"
    by blast
  from Open_rejects_invalid_metadata [OF this, of new_calculator] h0 h1 h2 h3 p
  show ?thesis by simp
qed

subsection \<open>C3: the header on VIDEO_PRESTREAM\<close>





subsection \<open>C7: Close\<close>

lemma Close_logs_warning:
  assumes "decoded_frames calc \<noteq> frame_count calc"
  shows "effects (snd (snd (Close vc calc cc)))
           = effects cc @ [LOG_WARNING (frame_count calc) (decoded_frames calc)]"
  using assms by (simp add: Close_def Let_def split: option.splits)

text \<open>
  C7. \<^verbatim>\<open>Close\<close> returns \<^verbatim>\<open>OkStatus\<close> from every state of the calculator, the one with a
  null \<^verbatim>\<open>cap_\<close> included. When \<^verbatim>\<open>Open\<close> runs on a newly constructed calculator whose
  \<^verbatim>\<open>frame_count_\<close> is zero and the session does not open, \<^verbatim>\<open>Open\<close> fails with ``Fail to
  open video file'' and changes nothing but \<^verbatim>\<open>cap_\<close>; \<^verbatim>\<open>Close\<close> then returns
  \<^verbatim>\<open>OkStatus\<close>, releases nothing and logs no warning, since \<^verbatim>\<open>decoded_frames_\<close> and
  \<^verbatim>\<open>frame_count_\<close> are both zero.
\<close>

theorem Close_after_failed_Open:
  shows "fst (Close vc calc cc) = OkStatus
         \<and> (constructed calc0 \<and> frame_count calc0 = 0
            \<and> \<not> vc_isOpened vc (vc_new vc (INPUT_FILE_PATH cc0)) \<longrightarrow>
              (\<exists>calc1. Open vc calc0 cc0 = (Fail_to_open (INPUT_FILE_PATH cc0), calc1, cc0)
                 \<and> Close vc calc1 cc0 = (OkStatus, calc1, cc0)))"
proof -
  have "fst (Close vc calc cc) = OkStatus"
    by (simp add: Close_def Let_def)
  moreover have "\<exists>calc1. Open vc calc0 cc0 = (Fail_to_open (INPUT_FILE_PATH cc0), calc1, cc0)
                   \<and> Close vc calc1 cc0 = (OkStatus, calc1, cc0)"
    if c: "constructed calc0" and z: "frame_count calc0 = 0"
      and n: "\<not> vc_isOpened vc (vc_new vc (INPUT_FILE_PATH cc0))"
  proof -
    let ?calc1 = "calc0\<lparr>cap := Some (vc_new vc (INPUT_FILE_PATH cc0))\<rparr>"
    from n have "Open vc calc0 cc0 = (Fail_to_open (INPUT_FILE_PATH cc0), ?calc1, cc0)"
      by (rule Open_not_opened)
    moreover from c z n have "Close vc ?calc1 cc0 = (OkStatus, ?calc1, cc0)"
      by (simp add: Close_def Let_def constructed_def)
    ultimately show ?thesis by blast
  qed
  ultimately show ?thesis by blast
qed

theorem Close_after_failed_Open_witness:
  "fst (Close (file_capture bgr_file) at_end_of_file after_two_frames_context) = OkStatus
   \<and> constructed new_calculator \<and> frame_count new_calculator = 0
   \<and> \<not> vc_isOpened (file_capture bgr_file)
         (vc_new (file_capture bgr_file) (INPUT_FILE_PATH (new_context ''missing.mp4'' True)))
   \<and> (\<exists>calc1. Open (file_capture bgr_file) new_calculator (new_context ''missing.mp4'' True)
                 = (Fail_to_open (INPUT_FILE_PATH (new_context ''missing.mp4'' True)), calc1,
                    new_context ''missing.mp4'' True)
               \<and> Close (file_capture bgr_file) calc1 (new_context ''missing.mp4'' True)
                   = (OkStatus, calc1, new_context ''missing.mp4'' True))"
proof -
  have h1: "constructed new_calculator"
    by (simp add: constructed_def new_calculator_def)
  have h2: "frame_count new_calculator = 0"
    by (simp add: new_calculator_def)
  have h3: "\<not> vc_isOpened (file_capture bgr_file)
               (vc_new (file_capture bgr_file)
                  (INPUT_FILE_PATH (new_context ''missing.mp4'' True)))"
    by (simp add: file_capture_def bgr_file_def new_context_def)
  from Close_after_failed_Open
         [of "file_capture bgr_file" at_end_of_file after_two_frames_context new_calculator
             "new_context ''missing.mp4'' True"]
    h1 h2 h3
  show ?thesis by blast
qed

subsection \<open>C8: the image frame in the canonical format\<close>

lemma those_bgr2rgb_Some:
  "list_all (\<lambda>px. length px = 3) xs \<Longrightarrow> \<exists>ys. those (map bgr2rgb xs) = Some ys"
proof (induction xs)
  case Nil
  then show ?case by simp
next
  case (Cons px xs)
  then obtain b g r where "px = [b, g, r]"
    by (auto simp add: numeral_3_eq_3 length_Suc_conv)
  with Cons show ?case by auto
qed

lemma those_bgra2rgba_Some:
  "list_all (\<lambda>px. length px = 4) xs \<Longrightarrow> \<exists>ys. those (map bgra2rgba xs) = Some ys"
proof (induction xs)
  case Nil
  then show ?case by simp
next
  case (Cons px xs)
  from Cons.prems have "length px = Suc (Suc (Suc (Suc 0)))" by simp
  then obtain b g r a where "px = [b, g, r, a]"
    by (auto simp add: length_Suc_conv)
  with Cons show ?case by auto
qed

lemma Process_no_exception:
  assumes "cap calc = Some c"
    and "Mat_wf (fst (vc_read vc c))"
    and "fits calc (fst (vc_read vc c))"
  shows "Process vc calc cc \<noteq> Inl cv_Exception"
proof -
  obtain frame c' where r: "vc_read vc c = (frame, c')"
    by (cases "vc_read vc c")
  from assms(3) r have size: "mat_rows frame = height calc" "mat_cols frame = width calc"
    and ch: "mat_channels frame = NumberOfChannels (format calc)"
    by (simp_all add: fits_def)
  show ?thesis
  proof (cases "format calc")
    case SRGB
    with assms(2) r ch have "list_all (\<lambda>px. length px = 3) (mat_data frame)"
      by (simp add: Mat_wf_def list_all_iff)
    from those_bgr2rgb_Some [OF this] SRGB assms(1) r size show ?thesis
      by (auto simp add: Process_def Let_def view_holds_def ImageFrame_new_def)
  next
    case SRGBA
    with assms(2) r ch have "list_all (\<lambda>px. length px = 4) (mat_data frame)"
      by (simp add: Mat_wf_def list_all_iff)
    from those_bgra2rgba_Some [OF this] SRGBA assms(1) r size show ?thesis
      by (auto simp add: Process_def Let_def view_holds_def ImageFrame_new_def)
  next
    case GRAY8
    with assms(1) r show ?thesis by (simp add: Process_def Let_def)
  next
    case UNKNOWN
    with assms(1) r show ?thesis by (simp add: Process_def Let_def)
  qed
qed

lemma Open_wide_gray_file:
  "Open (file_capture wide_gray_file) new_calculator (new_context ''w.avi'' False)
     = (OkStatus, wide_gray_opened, new_context ''w.avi'' False)"
  by (simp add: Open_def Let_def file_capture_simps wide_gray_file_def new_calculator_def
      new_context_def wide_gray_opened_def)

text \<open>
  C8, as stated, fails. The width and height of the image frame come from the
  properties of the session and are not compared with the decoded frames. On a
  one-channel file that reports the width 4 and decodes to frames of 2 columns,
  \<^verbatim>\<open>Open\<close> succeeds and the first step of \<^verbatim>\<open>Process\<close> decodes the frame with the data
  \<open>[[5], [6]]\<close>, which does not have the shape of the view; the packet emitted on
  \<^verbatim>\<open>VIDEO\<close> is the image frame of width 4 with nothing written to its buffer, not the
  decoded data.
\<close>

theorem Process_image_frame_counterexample:
  "Open (file_capture wide_gray_file) new_calculator (new_context ''w.avi'' False)
     = (OkStatus, wide_gray_opened, new_context ''w.avi'' False)
   \<and> vc_read (file_capture wide_gray_file)
         \<lparr>sess_opened = True, sess_rest = file_frames wide_gray_file\<rparr>
       = (\<lparr>mat_rows = 1, mat_cols = 2, mat_channels = 1, mat_data = [[5], [6]]\<rparr>,
          \<lparr>sess_opened = True, sess_rest = []\<rparr>)
   \<and> Process (file_capture wide_gray_file) wide_gray_opened (new_context ''w.avi'' False)
       = Inr (OkStatus,
              wide_gray_opened\<lparr>cap := Some \<lparr>sess_opened = True, sess_rest = []\<rparr>,
                                prev_timestamp := Timestamp 0, decoded_frames := 1\<rparr>,
              (new_context ''w.avi'' False)
                \<lparr>effects := [Add_VIDEO \<lparr>Format = GRAY8, Width = 4, Height = 1,
                                         PixelData = None\<rparr> (Timestamp 0)]\<rparr>)"
  by (simp add: Open_wide_gray_file)
     (simp add: Process_def Process_output_def Let_def file_capture_simps
        wide_gray_file_def new_context_def wide_gray_opened_def)

text \<open>
  C8, amended. Take a step of \<^verbatim>\<open>Process\<close> whose \<^verbatim>\<open>read\<close> yields a frame that fits the
  image frame of the step: it has \<^verbatim>\<open>height_\<close> rows, \<^verbatim>\<open>width_\<close> columns and the channels
  of \<^verbatim>\<open>format_\<close>. When the frame is well formed, the conversion does not throw.
  Whenever it does not throw, the image frame that reaches the comparison of line 160
  has the format \<^verbatim>\<open>format_\<close>, the width \<^verbatim>\<open>width_\<close> and the height \<^verbatim>\<open>height_\<close>, and its
  pixels are: for \<^verbatim>\<open>GRAY8\<close> the decoded data as they are; for \<^verbatim>\<open>SRGB\<close> what \<^verbatim>\<open>cvtColor\<close>
  makes of the decoded frame with \<^verbatim>\<open>COLOR_BGR2RGB\<close>, every \<open>[b, g, r]\<close> turned into
  \<open>[r, g, b]\<close>; for \<^verbatim>\<open>SRGBA\<close> what \<^verbatim>\<open>cvtColor\<close> makes of it with \<^verbatim>\<open>COLOR_BGRA2RGBA\<close>,
  every \<open>[b, g, r, a]\<close> turned into \<open>[r, g, b, a]\<close>.
\<close>

theorem Process_image_frame:
  assumes "cap calc = Some c"
    and "\<not> Mat_empty (fst (vc_read vc c))"
    and "fits calc (fst (vc_read vc c))"
  shows "(Mat_wf (fst (vc_read vc c)) \<longrightarrow> Process vc calc cc \<noteq> Inl cv_Exception)
         \<and> (Process vc calc cc \<noteq> Inl cv_Exception \<longrightarrow>
            (\<exists>image_frame.
               Process vc calc cc =
                 Inr (Process_output (calc\<lparr>cap := Some (snd (vc_read vc c))\<rparr>) cc image_frame
                        (position_timestamp vc c))
               \<and> Format image_frame = format calc
               \<and> Width image_frame = width calc
               \<and> Height image_frame = height calc
               \<and> (format calc = GRAY8 \<longrightarrow>
                    PixelData image_frame = Some (mat_data (fst (vc_read vc c))))
               \<and> (format calc = SRGB \<longrightarrow>
                    cvtColor (fst (vc_read vc c))
                      (ImageFrame_new (format calc) (width calc) (height calc)) COLOR_BGR2RGB
                      = Some image_frame
                    \<and> (\<exists>px. PixelData image_frame = Some px
                          \<and> list_all2 reordered3 (mat_data (fst (vc_read vc c))) px))
               \<and> (format calc = SRGBA \<longrightarrow>
                    cvtColor (fst (vc_read vc c))
                      (ImageFrame_new (format calc) (width calc) (height calc)) COLOR_BGRA2RGBA
                      = Some image_frame
                    \<and> (\<exists>px. PixelData image_frame = Some px
                          \<and> list_all2 reordered4 (mat_data (fst (vc_read vc c))) px))))"
proof -
  obtain frame c' where r: "vc_read vc c = (frame, c')"
    by (cases "vc_read vc c")
  from assms(2) r have ne: "\<not> Mat_empty frame" by simp
  let ?new = "ImageFrame_new (format calc) (width calc) (height calc)"
  let ?calc = "calc\<lparr>cap := Some c'\<rparr>"
  let ?ts = "position_timestamp vc c"
  have "\<exists>image_frame.
          Process vc calc cc = Inr (Process_output ?calc cc image_frame ?ts)
          \<and> Format image_frame = format calc
          \<and> Width image_frame = width calc
          \<and> Height image_frame = height calc
          \<and> (format calc = GRAY8 \<longrightarrow> PixelData image_frame = Some (mat_data frame))
          \<and> (format calc = SRGB \<longrightarrow>
               cvtColor frame ?new COLOR_BGR2RGB = Some image_frame
               \<and> (\<exists>px. PixelData image_frame = Some px
                     \<and> list_all2 reordered3 (mat_data frame) px))
          \<and> (format calc = SRGBA \<longrightarrow>
               cvtColor frame ?new COLOR_BGRA2RGBA = Some image_frame
               \<and> (\<exists>px. PixelData image_frame = Some px
                     \<and> list_all2 reordered4 (mat_data frame) px))"
    if nx: "Process vc calc cc \<noteq> Inl cv_Exception"
  proof (cases "format calc")
    case GRAY8
    with assms(1,3) r ne show ?thesis
      by (intro exI [of _ "?new\<lparr>PixelData := Some (mat_data frame)\<rparr>"])
         (simp add: Process_def Let_def ImageFrame_new_def position_timestamp_def
            fits_def view_holds_def)
  next
    case SRGB
    with assms(1) r ne nx obtain image_frame where
      cv: "cvtColor frame ?new COLOR_BGR2RGB = Some image_frame"
      by (auto simp add: Process_def Let_def split: option.splits)
    then obtain px where px: "those (map bgr2rgb (mat_data frame)) = Some px"
      and im: "image_frame = ?new\<lparr>PixelData := Some px\<rparr>"
      by (auto split: option.splits if_splits)
    from px have "list_all2 reordered3 (mat_data frame) px"
      by (rule those_bgr2rgb)
    with SRGB assms(1) r ne cv im show ?thesis
      by (intro exI [of _ image_frame])
         (simp add: Process_def Let_def ImageFrame_new_def position_timestamp_def)
  next
    case SRGBA
    with assms(1) r ne nx obtain image_frame where
      cv: "cvtColor frame ?new COLOR_BGRA2RGBA = Some image_frame"
      by (auto simp add: Process_def Let_def split: option.splits)
    then obtain px where px: "those (map bgra2rgba (mat_data frame)) = Some px"
      and im: "image_frame = ?new\<lparr>PixelData := Some px\<rparr>"
      by (auto split: option.splits if_splits)
    from px have "list_all2 reordered4 (mat_data frame) px"
      by (rule those_bgra2rgba)
    with SRGBA assms(1) r ne cv im show ?thesis
      by (intro exI [of _ image_frame])
         (simp add: Process_def Let_def ImageFrame_new_def position_timestamp_def)
  next
    case UNKNOWN
    with assms(1) r ne show ?thesis
      by (intro exI [of _ ?new])
         (simp add: Process_def Let_def ImageFrame_new_def position_timestamp_def)
  qed
  moreover have "Process vc calc cc \<noteq> Inl cv_Exception" if "Mat_wf (fst (vc_read vc c))"
    using assms(1) that assms(3) by (rule Process_no_exception)
  ultimately show ?thesis using r by simp
qed

theorem Process_image_frame_witness:
  "cap bgr_opened = Some \<lparr>sess_opened = True, sess_rest = file_frames bgr_file\<rparr>
   \<and> \<not> Mat_empty (fst (vc_read (file_capture bgr_file)
                         \<lparr>sess_opened = True, sess_rest = file_frames bgr_file\<rparr>))
   \<and> fits bgr_opened (fst (vc_read (file_capture bgr_file)
                               \<lparr>sess_opened = True, sess_rest = file_frames bgr_file\<rparr>))
   \<and> Mat_wf (fst (vc_read (file_capture bgr_file)
                    \<lparr>sess_opened = True, sess_rest = file_frames bgr_file\<rparr>))
   \<and> format bgr_opened = SRGB
   \<and> mat_data (fst (vc_read (file_capture bgr_file)
                      \<lparr>sess_opened = True, sess_rest = file_frames bgr_file\<rparr>))
       = [[1, 2, 3], [4, 5, 6]]
   \<and> Process (file_capture bgr_file) bgr_opened bgr_opened_context \<noteq> Inl cv_Exception
   \<and> (\<exists>image_frame.
         Process (file_capture bgr_file) bgr_opened bgr_opened_context =
           Inr (Process_output
                  (bgr_opened\<lparr>cap := Some (snd (vc_read (file_capture bgr_file)
                        \<lparr>sess_opened = True, sess_rest = file_frames bgr_file\<rparr>))\<rparr>)
                  bgr_opened_context image_frame
                  (position_timestamp (file_capture bgr_file)
                     \<lparr>sess_opened = True, sess_rest = file_frames bgr_file\<rparr>))
         \<and> Format image_frame = SRGB \<and> Width image_frame = 2 \<and> Height image_frame = 1
         \<and> (\<exists>px. PixelData image_frame = Some px
               \<and> list_all2 reordered3 [[1, 2, 3], [4, 5, 6]] px))"
proof -
  let ?s = "\<lparr>sess_opened = True, sess_rest = file_frames bgr_file\<rparr>"
  let ?vc = "file_capture bgr_file"
  have h1: "cap bgr_opened = Some ?s"
    by (simp add: bgr_opened_def)
  have h2: "\<not> Mat_empty (fst (vc_read ?vc ?s))"
    by (simp add: file_capture_simps bgr_file_def)
  have h3: "fits bgr_opened (fst (vc_read ?vc ?s))"
    by (simp add: fits_def bgr_opened_def file_capture_simps bgr_file_def)
  have h4: "Mat_wf (fst (vc_read ?vc ?s))"
    by (simp add: Mat_wf_def file_capture_simps bgr_file_def)
  have h5: "format bgr_opened = SRGB" "width bgr_opened = 2" "height bgr_opened = 1"
    by (simp_all add: bgr_opened_def)
  have h6: "mat_data (fst (vc_read ?vc ?s)) = [[1, 2, 3], [4, 5, 6]]"
    by (simp add: file_capture_simps bgr_file_def)
  note t = Process_image_frame [OF h1 h2 h3, of bgr_opened_context]
  from t h4 have x: "Process ?vc bgr_opened bgr_opened_context \<noteq> Inl cv_Exception"
    by blast
  with t h5 h6
  have "\<exists>image_frame.
         Process ?vc bgr_opened bgr_opened_context =
           Inr (Process_output (bgr_opened\<lparr>cap := Some (snd (vc_read ?vc ?s))\<rparr>)
                  bgr_opened_context image_frame (position_timestamp ?vc ?s))
         \<and> Format image_frame = SRGB \<and> Width image_frame = 2 \<and> Height image_frame = 1
         \<and> (\<exists>px. PixelData image_frame = Some px
               \<and> list_all2 reordered3 [[1, 2, 3], [4, 5, 6]] px)"
    by auto
  with h1 h2 h3 h4 h5 h6 x show ?thesis by blast
qed

subsection \<open>C9: the first frame after Open\<close>





subsection \<open>C6: the timestamp of a frame\<close>

lemma Open_gray_file:
  "Open (file_capture gray_file) new_calculator (new_context ''g.avi'' False)
     = (OkStatus, gray_opened, new_context ''g.avi'' False)"
  by (simp add: Open_def Let_def file_capture_simps gray_file_def new_calculator_def
      new_context_def gray_opened_def)

text \<open>
  C6, as stated, fails. On the one-channel file, whose session reports the position 0
  before the first frame is read and 40 milliseconds after, the first step of
  \<^verbatim>\<open>Process\<close> after \<^verbatim>\<open>Open\<close> emits the first frame with the timestamp 0: the position
  read before decoding. The position of the session once the frame is decoded gives
  the timestamp 40000.
\<close>

theorem Process_timestamp_counterexample:
  "Open (file_capture gray_file) new_calculator (new_context ''g.avi'' False)
     = (OkStatus, gray_opened, new_context ''g.avi'' False)
   \<and> Process (file_capture gray_file) gray_opened (new_context ''g.avi'' False)
       = Inr (OkStatus,
              gray_opened\<lparr>cap := Some gray_second, prev_timestamp := Timestamp 0,
                           decoded_frames := 1\<rparr>,
              (new_context ''g.avi'' False)\<lparr>effects := [Add_VIDEO gray_image (Timestamp 0)]\<rparr>)
   \<and> snd (vc_read (file_capture gray_file)
             \<lparr>sess_opened = True, sess_rest = file_frames gray_file\<rparr>) = gray_second
   \<and> Timestamp (double_to_int
                   (double_times (file_capture gray_file)
                      (vc_get (file_capture gray_file) gray_second CAP_PROP_POS_MSEC) 1000))
       = Timestamp 40000
   \<and> Timestamp 0 \<noteq> Timestamp 40000"
  by (simp add: Open_gray_file)
     (simp add: Process_def Process_output_def Let_def
        file_capture_simps gray_file_def new_context_def gray_opened_def gray_second_def
        gray_image_def)

text \<open>
  C6, amended. On every step of \<^verbatim>\<open>Process\<close>, the timestamp is derived from the position
  that the session reports before the frame of this step is decoded: the \<^verbatim>\<open>double\<close>
  product of that position in milliseconds and 1000, as the machine rounds it, with
  its fraction discarded. The frame is decoded after that, and when it is emitted it
  carries this timestamp.
\<close>

theorem Process_timestamp:
  assumes "cap calc = Some c"
    and "\<not> Mat_empty (fst (vc_read vc c))"
    and "Process vc calc cc \<noteq> Inl cv_Exception"
    and "ts_less (prev_timestamp calc)
           (Timestamp (double_to_int
              (double_times vc (vc_get vc c CAP_PROP_POS_MSEC) 1000)))"
  shows "\<exists>image_frame.
           Process vc calc cc =
             Inr (OkStatus,
                  calc\<lparr>cap := Some (snd (vc_read vc c)),
                       prev_timestamp :=
                         Timestamp (double_to_int
                           (double_times vc (vc_get vc c CAP_PROP_POS_MSEC) 1000)),
                       decoded_frames := decoded_frames calc + 1\<rparr>,
                  cc\<lparr>effects := effects cc
                        @ [Add_VIDEO image_frame
                             (Timestamp (double_to_int
                                (double_times vc (vc_get vc c CAP_PROP_POS_MSEC) 1000)))]\<rparr>)"
proof -
  from Process_frame [OF assms(1-3)] obtain image_frame where
    "Process vc calc cc =
       Inr (Process_output (calc\<lparr>cap := Some (snd (vc_read vc c))\<rparr>) cc image_frame
              (position_timestamp vc c))"
    by blast
  with assms(4) show ?thesis
    by (intro exI [of _ image_frame])
       (simp add: Process_output_def position_timestamp_def)
qed

theorem Process_timestamp_witness:
  "cap gray_opened = Some \<lparr>sess_opened = True, sess_rest = file_frames gray_file\<rparr>
   \<and> \<not> Mat_empty (fst (vc_read (file_capture gray_file)
                         \<lparr>sess_opened = True, sess_rest = file_frames gray_file\<rparr>))
   \<and> Process (file_capture gray_file) gray_opened (new_context ''g.avi'' False)
       \<noteq> Inl cv_Exception
   \<and> ts_less (prev_timestamp gray_opened)
       (Timestamp (double_to_int
          (double_times (file_capture gray_file)
             (vc_get (file_capture gray_file)
                \<lparr>sess_opened = True, sess_rest = file_frames gray_file\<rparr> CAP_PROP_POS_MSEC)
             1000)))
   \<and> (\<exists>image_frame.
         Process (file_capture gray_file) gray_opened (new_context ''g.avi'' False) =
           Inr (OkStatus,
                gray_opened\<lparr>cap := Some gray_second, prev_timestamp := Timestamp 0,
                             decoded_frames := 1\<rparr>,
                (new_context ''g.avi'' False)
                  \<lparr>effects := [Add_VIDEO image_frame (Timestamp 0)]\<rparr>))"
proof -
  let ?s = "\<lparr>sess_opened = True, sess_rest = file_frames gray_file\<rparr>"
  let ?vc = "file_capture gray_file"
  have h1: "cap gray_opened = Some ?s"
    by (simp add: gray_opened_def)
  have h2: "\<not> Mat_empty (fst (vc_read ?vc ?s))"
    by (simp add: file_capture_simps gray_file_def)
  have h3: "Process ?vc gray_opened (new_context ''g.avi'' False) \<noteq> Inl cv_Exception"
    by (simp add: Process_def Let_def gray_opened_def file_capture_simps gray_file_def)
  have t: "Timestamp (double_to_int (double_times ?vc (vc_get ?vc ?s CAP_PROP_POS_MSEC) 1000))
             = Timestamp 0"
    by (simp add: file_capture_simps gray_file_def)
  have h4: "ts_less (prev_timestamp gray_opened)
              (Timestamp (double_to_int
                 (double_times ?vc (vc_get ?vc ?s CAP_PROP_POS_MSEC) 1000)))"
    by (simp add: t gray_opened_def)
  have r: "snd (vc_read ?vc ?s) = gray_second"
    by (simp add: file_capture_simps gray_file_def gray_second_def)
  have d: "decoded_frames gray_opened + 1 = 1" "effects (new_context ''g.avi'' False) = []"
    by (simp_all add: gray_opened_def new_context_def)
  from Process_timestamp [OF h1 h2 h3 h4]
  have "\<exists>image_frame.
         Process ?vc gray_opened (new_context ''g.avi'' False) =
           Inr (OkStatus,
                gray_opened\<lparr>cap := Some gray_second, prev_timestamp := Timestamp 0,
                             decoded_frames := 1\<rparr>,
                (new_context ''g.avi'' False)
                  \<lparr>effects := [Add_VIDEO image_frame (Timestamp 0)]\<rparr>)"
    by (simp add: t r d)
  with h1 h2 h3 h4 show ?thesis by blast
qed

end
